theory Spec2Isabelle
  imports Complex_Main "HOL-Library.Sublist"
begin

section \<open>The SWE-bench success-rate script\<close>

text \<open>
  The repository is one Python script, \<^verbatim>\<open>scripts/evaluate_swebench_success_rate.py\<close>,
  with two functions: \<^verbatim>\<open>get_metrics_from_summary\<close>, which reads a report file and
  scans it with one regular expression, and \<^verbatim>\<open>main\<close>, which resolves the report's
  path, calls the extractor and prints the result.

  The script's own code is short; what it does is decided by the library calls it makes:
  \<^verbatim>\<open>re.search\<close>, \<^verbatim>\<open>int\<close>, \<^verbatim>\<open>float\<close>, the format
  specification \<^verbatim>\<open>.2f\<close>, \<^verbatim>\<open>json.dumps\<close>, \<^verbatim>\<open>pathlib.Path\<close> and
  \<^verbatim>\<open>print\<close>. Each is modelled below as an executable function (CPython on a POSIX
  system), on the part of its domain the script can reach; the two functions of the
  script are then transcribed line by line on top of these.

  A Python \<^verbatim>\<open>str\<close> is a sequence of code points. A text is modelled as a
  \<^typ>\<open>string\<close>, each \<^typ>\<open>char\<close> read as the code point of the same number, so the
  model covers the texts whose code points are below 256.
\<close>

subsection \<open>Exceptions\<close>

text \<open>
  The exceptions that can leave a call. \<open>Unmodelled\<close> is not a Python exception: it marks
  an argument outside the part of a library function that is modelled here (for example
  \<^verbatim>\<open>int(" 12")\<close>, which Python accepts). The theorems show that the script never
  reaches it.
\<close>

datatype error =
    ValueError
  | KeyError
  | TypeError
  | OSError
  | UnicodeDecodeError
  | Unmodelled

text \<open>
  A call that raises ends the computation around it: \<open>and_then x f\<close> goes on with
  \<open>f\<close> on the value of \<open>x\<close>, or stops with the exception of \<open>x\<close>.
\<close>

definition and_then :: "error + 'a \<Rightarrow> ('a \<Rightarrow> error + 'b) \<Rightarrow> error + 'b" where
  "and_then x f = (case x of Inl e \<Rightarrow> Inl e | Inr a \<Rightarrow> f a)"

subsection \<open>Character classes of \<^verbatim>\<open>re\<close>\<close>

text \<open>
  For a \<^verbatim>\<open>str\<close> pattern, \<^verbatim>\<open>\s\<close> matches the Unicode whitespace characters and
  \<^verbatim>\<open>\d\<close> the Unicode decimal digits. Below code point 256 these are the characters
  9 to 13, 28 to 32, 133 (NEL) and 160 (NBSP), and the ten ASCII digits.
\<close>

definition is_space :: "char \<Rightarrow> bool" where
  "is_space c \<longleftrightarrow>
     (of_char c :: nat) \<in> {9, 10, 11, 12, 13, 28, 29, 30, 31, 32, 133, 160}"

definition is_digit :: "char \<Rightarrow> bool" where
  "is_digit c \<longleftrightarrow> 48 \<le> (of_char c :: nat) \<and> (of_char c :: nat) \<le> 57"

datatype cclass = Space | Digit

fun in_class :: "cclass \<Rightarrow> char \<Rightarrow> bool" where
  "in_class Space c = is_space c"
| "in_class Digit c = is_digit c"

subsection \<open>Regular expressions and \<^verbatim>\<open>re.search\<close>\<close>

text \<open>
  The constructs the script's pattern uses: a literal text, a greedy \<^verbatim>\<open>*\<close> or
  \<^verbatim>\<open>+\<close> over a character class, concatenation, and a numbered capturing group.
\<close>

datatype regex =
    Lit string
  | Star cclass
  | Plus cclass
  | Seq regex regex
  | Group nat regex

text \<open>The text each group matched last, by group number.\<close>

type_synonym groups = "nat \<rightharpoonup> string"

text \<open>
  \<^verbatim>\<open>re\<close> is a backtracking matcher. \<open>matches r s g\<close> lists every way \<open>r\<close> can match
  at the start of \<open>s\<close>, in the order in which the matcher tries them: each entry is the
  rest of the text after the match and the groups set so far. A greedy quantifier tries
  the longest run first and gives characters back one at a time; a concatenation tries
  the ways of its second part for each way of its first, in order. The first entry of
  the list is the match Python reports.
\<close>

fun matches :: "regex \<Rightarrow> string \<Rightarrow> groups \<Rightarrow> (string \<times> groups) list" where
  "matches (Lit w) s g = (if prefix w s then [(drop (length w) s, g)] else [])"
| "matches (Star k) s g =
     map (\<lambda>n. (drop n s, g)) (rev [0 ..< Suc (length (takeWhile (in_class k) s))])"
| "matches (Plus k) s g =
     map (\<lambda>n. (drop n s, g)) (rev [1 ..< Suc (length (takeWhile (in_class k) s))])"
| "matches (Seq r1 r2) s g =
     concat (map (\<lambda>(s', g'). matches r2 s' g') (matches r1 s g))"
| "matches (Group i r) s g =
     map (\<lambda>(s', g'). (s', g'(i \<mapsto> take (length s - length s') s))) (matches r s g)"

text \<open>The first way to match, if there is one: where the match ends and its groups.\<close>

definition first_match :: "regex \<Rightarrow> string \<Rightarrow> groups \<Rightarrow> (string \<times> groups) option" where
  "first_match r s g = (case matches r s g of [] \<Rightarrow> None | x # _ \<Rightarrow> Some x)"

text \<open>\<^verbatim>\<open>re.match\<close>: the groups of the first way to match at the start of the text.\<close>

definition re_match :: "regex \<Rightarrow> string \<Rightarrow> groups option" where
  "re_match r s = map_option snd (first_match r s Map.empty)"

text \<open>
  \<^verbatim>\<open>re.search\<close>: the match at the leftmost position of the text that has one
  (the end of the text is the last position tried).
\<close>

fun re_search :: "regex \<Rightarrow> string \<Rightarrow> groups option" where
  "re_search r [] = re_match r []"
| "re_search r (c # cs) =
     (case re_match r (c # cs) of Some g \<Rightarrow> Some g | None \<Rightarrow> re_search r cs)"

text \<open>
  \<^verbatim>\<open>m.group(i)\<close>. A group that took no part in the match gives \<^verbatim>\<open>None\<close>, on
  which \<^verbatim>\<open>int\<close> and \<^verbatim>\<open>float\<close> raise \<^verbatim>\<open>TypeError\<close>.
\<close>

definition group :: "groups \<Rightarrow> nat \<Rightarrow> error + string" where
  "group m i = (case m i of None \<Rightarrow> Inl TypeError | Some s \<Rightarrow> Inr s)"

fun cat :: "regex list \<Rightarrow> regex" where
  "cat [] = Lit []"
| "cat [r] = r"
| "cat (r # rs) = Seq r (cat rs)"

text \<open>
  The pattern of line 17,
  \<^verbatim>\<open>r"Resolved:\s*(\d+)\s*/\s*(\d+)\s*(\d+\.\d+)%"\<close>, token by token.
\<close>

definition resolved_pattern :: regex where
  "resolved_pattern =
     cat [Lit ''Resolved:'', Star Space, Group 1 (Plus Digit), Star Space, Lit ''/'',
          Star Space, Group 2 (Plus Digit), Star Space,
          Group 3 (cat [Plus Digit, Lit ''.'', Plus Digit]), Lit ''%'']"

text \<open>
  The texts a pattern matches, stated without reference to the matcher: the language of
  the regular expression. A text contains a match when one of its substrings is in the
  language.
\<close>

fun lang :: "regex \<Rightarrow> string set" where
  "lang (Lit w) = {w}"
| "lang (Star k) = {u. list_all (in_class k) u}"
| "lang (Plus k) = {u. u \<noteq> [] \<and> list_all (in_class k) u}"
| "lang (Seq r1 r2) = {u @ v | u v. u \<in> lang r1 \<and> v \<in> lang r2}"
| "lang (Group i r) = lang r"

definition contains_match :: "regex \<Rightarrow> string \<Rightarrow> bool" where
  "contains_match r s \<longleftrightarrow> (\<exists>p u q. s = p @ u @ q \<and> u \<in> lang r)"

text \<open>A match of the pattern starts at position \<open>i\<close> of the text.\<close>

definition match_at :: "regex \<Rightarrow> string \<Rightarrow> nat \<Rightarrow> bool" where
  "match_at r s i \<longleftrightarrow> i \<le> length s \<and> (\<exists>u q. drop i s = u @ q \<and> u \<in> lang r)"

subsection \<open>\<^verbatim>\<open>int\<close> and \<^verbatim>\<open>float\<close> on the text of a group\<close>

definition digit_value :: "char \<Rightarrow> nat" where
  "digit_value c = of_char c - 48"

definition decimal_value :: "string \<Rightarrow> nat" where
  "decimal_value s = foldl (\<lambda>n c. 10 * n + digit_value c) 0 s"

definition all_digits :: "string \<Rightarrow> bool" where
  "all_digits s \<longleftrightarrow> s \<noteq> [] \<and> list_all is_digit s"

text \<open>
  \<^verbatim>\<open>int(s)\<close> on a text of decimal digits. Since CPython 3.11 (and the security
  releases 3.7.14, 3.8.14, 3.9.14 and 3.10.7) the conversion between \<^verbatim>\<open>str\<close> and
  \<^verbatim>\<open>int\<close> raises \<^verbatim>\<open>ValueError\<close> when the text has more digits than the
  interpreter's limit (\<^verbatim>\<open>sys.get_int_max_str_digits()\<close>, 4300 unless the
  environment sets \<^verbatim>\<open>PYTHONINTMAXSTRDIGITS\<close>; 0 switches the limit off; leading
  zeros count). Texts of at most 640 digits are converted whatever the limit is, and the
  interpreter accepts no limit between 1 and 639. The script's annotation
  \<^verbatim>\<open>dict[str, float]\<close> needs Python 3.9 or later. The limit is a parameter of the
  model, \<open>max_str_digits\<close>.
  The other texts \<^verbatim>\<open>int\<close> accepts (a sign, padding, underscores) are not modelled.
\<close>

definition over_limit :: "nat \<Rightarrow> nat \<Rightarrow> bool" where
  "over_limit max_str_digits n \<longleftrightarrow> 640 < n \<and> 0 < max_str_digits \<and> max_str_digits < n"

definition py_int :: "nat \<Rightarrow> string \<Rightarrow> error + int" where
  "py_int max_str_digits s =
     (if \<not> all_digits s then Inl Unmodelled
      else if over_limit max_str_digits (length s) then Inl ValueError
      else Inr (int (decimal_value s)))"

text \<open>
  A Python \<^verbatim>\<open>float\<close> is an IEEE binary64 number: \<open>Finite q\<close> is the double whose
  exact value is the rational \<open>q\<close>, and \<open>Infinity\<close> is \<^verbatim>\<open>inf\<close>. The script makes
  floats from unsigned decimal texts only, so negative zero, negative infinity and NaN do
  not arise and are not in the type.
\<close>

datatype pyfloat = Finite rat | Infinity

definition pw :: "nat \<Rightarrow> int \<Rightarrow> rat" where
  "pw b e = (if 0 \<le> e then of_nat b ^ nat e else 1 / of_nat b ^ nat (- e))"

fun ndigits :: "nat \<Rightarrow> nat \<Rightarrow> nat" where
  "ndigits b n = (if n = 0 \<or> b < 2 then 0 else Suc (ndigits b (n div b)))"

declare ndigits.simps [simp del]

text \<open>
  \<open>ndigits b n\<close> is the number of digits of \<open>n\<close> in base \<open>b\<close>, and \<open>floor_log b q\<close> is
  the integer \<open>e\<close> with \<open>b ^ e \<le> q < b ^ (e + 1)\<close>, for \<open>q > 0\<close>.
\<close>

definition floor_log :: "nat \<Rightarrow> rat \<Rightarrow> int" where
  "floor_log b q =
     (if 1 \<le> q then int (ndigits b (nat \<lfloor>q\<rfloor>)) - 1
      else - int (ndigits b (nat (\<lceil>1 / q\<rceil> - 1))))"

definition round_half_even :: "rat \<Rightarrow> int" where
  "round_half_even x =
     (let f = \<lfloor>x\<rfloor>; d = x - of_int f
      in if d < 1 / 2 then f else if 1 / 2 < d then f + 1
         else if even f then f else f + 1)"

text \<open>
  The double nearest to a non-negative rational, ties to the even significand: 53 bits
  of precision above \<open>2 ^ -1022\<close>, multiples of \<open>2 ^ -1074\<close> below, \<^verbatim>\<open>inf\<close> from
  \<open>2 ^ 1024\<close> on.
\<close>

definition round_binary64 :: "rat \<Rightarrow> pyfloat" where
  "round_binary64 q =
     (if q = 0 then Finite 0
      else let e = max (floor_log 2 q) (- 1022);
               ulp = pw 2 (e - 52);
               r = of_int (round_half_even (q / ulp)) * ulp
           in if pw 2 1024 \<le> r then Infinity else Finite r)"

text \<open>
  \<^verbatim>\<open>float(s)\<close> on an unsigned decimal text with a point and digits on both sides:
  the double nearest to the decimal value (CPython's conversion is correctly rounded).
  The other texts \<^verbatim>\<open>float\<close> accepts (a sign, an exponent, padding, underscores,
  \<^verbatim>\<open>inf\<close>, \<^verbatim>\<open>nan\<close>, a missing integer or fractional part) are not modelled.
\<close>

definition py_float :: "string \<Rightarrow> error + pyfloat" where
  "py_float s =
     (let i = takeWhile is_digit s; rest = dropWhile is_digit s
      in case rest of
           [] \<Rightarrow> Inl Unmodelled
         | c # f \<Rightarrow>
             if c = CHR ''.'' \<and> all_digits i \<and> all_digits f
             then Inr (round_binary64 (of_nat (decimal_value (i @ f)) / 10 ^ length f))
             else Inl Unmodelled)"

subsection \<open>The metrics dictionary\<close>

text \<open>
  The values the script stores are \<^verbatim>\<open>int\<close>s and \<^verbatim>\<open>float\<close>s. A \<^verbatim>\<open>dict\<close>
  keeps its keys in insertion order, which \<^verbatim>\<open>json.dumps\<close> follows, so the
  dictionary is an association list: assigning to a new key appends it, assigning to
  an old key replaces its value in place.
\<close>

datatype pyval = PyInt int | PyFloat pyfloat

type_synonym metrics = "(string \<times> pyval) list"

fun dict_set :: "string \<Rightarrow> pyval \<Rightarrow> metrics \<Rightarrow> metrics" where
  "dict_set k v [] = [(k, v)]"
| "dict_set k v ((k', v') # d) =
     (if k' = k then (k, v) # d else (k', v') # dict_set k v d)"

definition dict_contains :: "metrics \<Rightarrow> string \<Rightarrow> bool" where
  "dict_contains d k \<longleftrightarrow> map_of d k \<noteq> None"

definition dict_get :: "metrics \<Rightarrow> string \<Rightarrow> error + pyval" where
  "dict_get d k = (case map_of d k of None \<Rightarrow> Inl KeyError | Some v \<Rightarrow> Inr v)"

subsection \<open>\<^verbatim>\<open>pathlib\<close> on a POSIX system\<close>

text \<open>
  A path is its root (empty, \<^verbatim>\<open>/\<close>, or \<^verbatim>\<open>//\<close> for a text that starts with
  exactly two slashes) and its components; empty components and \<^verbatim>\<open>.\<close> are
  dropped when a text is parsed. Joining with a relative path appends its components,
  joining with an absolute one replaces the path. \<^verbatim>\<open>str\<close> writes the root and the
  components with single slashes, and \<^verbatim>\<open>.\<close> for the empty path.
\<close>

type_synonym path = "string \<times> string list"

fun split_slash :: "string \<Rightarrow> string list" where
  "split_slash [] = [[]]"
| "split_slash (c # cs) =
     (if c = CHR ''/'' then [] # split_slash cs
      else (case split_slash cs of [] \<Rightarrow> [[c]] | p # ps \<Rightarrow> (c # p) # ps))"

fun join :: "string \<Rightarrow> string list \<Rightarrow> string" where
  "join sep [] = []"
| "join sep [x] = x"
| "join sep (x # xs) = x @ sep @ join sep xs"

definition Path :: "string \<Rightarrow> path" where
  "Path s =
     (if prefix ''//'' s \<and> \<not> prefix ''///'' s then ''//''
      else if prefix ''/'' s then ''/'' else [],
      filter (\<lambda>p. p \<noteq> [] \<and> p \<noteq> ''.'') (split_slash s))"

definition path_div :: "path \<Rightarrow> string \<Rightarrow> path" where
  "path_div p s = (if fst (Path s) \<noteq> [] then Path s else (fst p, snd p @ snd (Path s)))"

definition path_str :: "path \<Rightarrow> string" where
  "path_str p = (if p = ([], []) then ''.'' else fst p @ join ''/'' (snd p))"

subsection \<open>The file system and the effects of a run\<close>

text \<open>
  What a lookup of a path gives the process, by the text of the path.
  \<^item> \<open>None\<close>: nothing is there, and the lookup says so (it fails with
    \<^verbatim>\<open>ENOENT\<close> or \<^verbatim>\<open>ENOTDIR\<close>).
  \<^item> \<open>File content\<close>: a file that \<^verbatim>\<open>read_text()\<close> reads as \<open>content\<close>.
  \<^item> \<open>Unreadable\<close>: something that is there and cannot be read as a file (a directory,
    a file without read permission).
  \<^item> \<open>Undecodable\<close>: a file whose bytes do not decode.
  \<^item> \<open>NameTooLong\<close>: nothing is there and nothing can be, since a name of the path is
    longer than the file system allows; the lookup fails with \<^verbatim>\<open>ENAMETOOLONG\<close>.
  \<^item> \<open>NoAccess\<close>: a directory on the way may not be searched; the lookup fails with
    \<^verbatim>\<open>EACCES\<close>.
\<close>

datatype entry = File string | Unreadable | Undecodable | NameTooLong | NoAccess

type_synonym filesystem = "string \<rightharpoonup> entry"

text \<open>
  \<^verbatim>\<open>Path.exists()\<close> calls \<^verbatim>\<open>stat\<close>. It answers \<^verbatim>\<open>False\<close> when the lookup fails
  with \<^verbatim>\<open>ENOENT\<close>, \<^verbatim>\<open>ENOTDIR\<close>, \<^verbatim>\<open>EBADF\<close> or \<^verbatim>\<open>ELOOP\<close>, and
  lets every other \<^verbatim>\<open>OSError\<close> through to its caller (\<^verbatim>\<open>pathlib\<close> of
  CPython 3.11). The script has no handler around the call.
\<close>

definition path_exists :: "filesystem \<Rightarrow> path \<Rightarrow> error + bool" where
  "path_exists fs p =
     (case fs (path_str p) of
        None \<Rightarrow> Inr False
      | Some NameTooLong \<Rightarrow> Inl OSError
      | Some NoAccess \<Rightarrow> Inl OSError
      | Some _ \<Rightarrow> Inr True)"

text \<open>
  Nothing exists at a path when the lookup finds nothing there, or when a name of the
  path is too long for anything to be stored under it. (Behind a directory that may not
  be searched the process cannot tell.)
\<close>

definition nothing_at :: "filesystem \<Rightarrow> path \<Rightarrow> bool" where
  "nothing_at fs p \<longleftrightarrow> fs (path_str p) = None \<or> fs (path_str p) = Some NameTooLong"

text \<open>
  \<^verbatim>\<open>Path.read_text()\<close> opens the file, reads it and decodes it; every failure of the
  lookup or of the read is an \<^verbatim>\<open>OSError\<close>.
\<close>

definition read_text :: "filesystem \<Rightarrow> path \<Rightarrow> error + string" where
  "read_text fs p =
     (case fs (path_str p) of
        None \<Rightarrow> Inl OSError
      | Some (File content) \<Rightarrow> Inr content
      | Some Unreadable \<Rightarrow> Inl OSError
      | Some Undecodable \<Rightarrow> Inl UnicodeDecodeError
      | Some NameTooLong \<Rightarrow> Inl OSError
      | Some NoAccess \<Rightarrow> Inl OSError)"

text \<open>
  The effects of a run, in the order they happen: a test for existence, a read of a
  file, a \<^verbatim>\<open>print\<close> of one text.
\<close>

datatype effect = Exists string | ReadText string | Print string

subsection \<open>\<^verbatim>\<open>get_metrics_from_summary\<close> (lines 10 to 28)\<close>

text \<open>
  The function reads the file, searches the pattern once and, on a match, stores the
  three groups converted by \<^verbatim>\<open>int\<close>, \<^verbatim>\<open>int\<close> and \<^verbatim>\<open>float\<close>, in this
  order. The result is the effects it had and either the exception that left it or the
  dictionary it returned.
\<close>

definition get_metrics_from_summary ::
    "nat \<Rightarrow> filesystem \<Rightarrow> path \<Rightarrow> effect list \<times> (error + metrics)" where
  "get_metrics_from_summary max_str_digits fs summary_path =
     ([ReadText (path_str summary_path)],
      and_then (read_text fs summary_path) (\<lambda>content.
        case re_search resolved_pattern content of
          None \<Rightarrow> Inr []
        | Some resolved_match \<Rightarrow>
            and_then (and_then (group resolved_match 1) (py_int max_str_digits))
              (\<lambda>resolved_count.
            and_then (and_then (group resolved_match 2) (py_int max_str_digits))
              (\<lambda>resolved_total.
            and_then (and_then (group resolved_match 3) py_float)
              (\<lambda>success_rate.
            Inr (dict_set ''success_rate'' (PyFloat success_rate)
                  (dict_set ''resolved_total'' (PyInt resolved_total)
                    (dict_set ''resolved_count'' (PyInt resolved_count) []))))))))"

subsection \<open>Writing numbers: \<^verbatim>\<open>str\<close>, \<^verbatim>\<open>.2f\<close> and \<^verbatim>\<open>repr\<close>\<close>

definition digit_char :: "nat \<Rightarrow> char" where
  "digit_char n = ''0123456789abcdef'' ! n"

fun digits_of :: "nat \<Rightarrow> string" where
  "digits_of n =
     (if n < 10 then [digit_char n] else digits_of (n div 10) @ [digit_char (n mod 10)])"

declare digits_of.simps [simp del]

text \<open>
  \<^verbatim>\<open>str(i)\<close> of an \<^verbatim>\<open>int\<close>, which is also what an f-string and
  \<^verbatim>\<open>json.dumps\<close> write for it. The interpreter's limit on digits holds in this
  direction too.
\<close>

definition py_str_int :: "nat \<Rightarrow> int \<Rightarrow> error + string" where
  "py_str_int max_str_digits i =
     (let ds = digits_of (nat \<bar>i\<bar>)
      in if over_limit max_str_digits (length ds) then Inl ValueError
         else Inr ((if i < 0 then ''-'' else []) @ ds))"

text \<open>
  \<^verbatim>\<open>format(x, ".2f")\<close> of a float: the exact value of the double rounded to two
  decimals, ties to even. (Python converts an \<^verbatim>\<open>int\<close> to a float first; that is
  not modelled.)
\<close>

definition format_2f :: "pyval \<Rightarrow> error + string" where
  "format_2f v =
     (case v of
        PyInt i \<Rightarrow> Inl Unmodelled
      | PyFloat Infinity \<Rightarrow> Inr ''inf''
      | PyFloat (Finite q) \<Rightarrow>
          (let n = nat (round_half_even (\<bar>q\<bar> * 100))
           in Inr ((if q < 0 then ''-'' else []) @ digits_of (n div 100) @ ''.'' @
                   [digit_char (n mod 100 div 10), digit_char (n mod 10)])))"

text \<open>
  \<^verbatim>\<open>repr(x)\<close> of a float: the shortest decimal that reads back as the same double
  (the nearest one to it among the shortest). \<open>nearest q k\<close> are the decimals of \<open>k\<close>
  significant digits on either side of \<open>q\<close>, the nearer one first, each as the number
  its digits write; \<open>dpoint q\<close> is the position of the decimal point, the exponent of the
  least power of ten above \<open>q\<close>.
\<close>

definition dpoint :: "rat \<Rightarrow> int" where
  "dpoint q = floor_log 10 q + 1"

definition nearest :: "rat \<Rightarrow> nat \<Rightarrow> int list" where
  "nearest q k =
     (let y = q * pw 10 (int k - dpoint q);
          lo = \<lfloor>y\<rfloor>;
          hi = lo + 1;
          d_lo = y - of_int lo;
          d_hi = of_int hi - y
      in if d_lo < d_hi \<or> (d_lo = d_hi \<and> even lo) then [lo, hi] else [hi, lo])"

definition reads_back :: "rat \<Rightarrow> nat \<Rightarrow> int \<Rightarrow> bool" where
  "reads_back q k c \<longleftrightarrow> round_binary64 (of_int c / pw 10 (int k - dpoint q)) = Finite q"

text \<open>
  \<open>shortest q k\<close> searches from \<open>k\<close> digits upwards for a decimal that reads back as
  \<open>q\<close>. Seventeen significant digits always read back as the same double, so the
  search stops there: with 17 digits the nearest decimal is taken as it is.
\<close>

function shortest :: "rat \<Rightarrow> nat \<Rightarrow> nat \<times> int" where
  "shortest q k =
     (if 17 \<le> k then (k, hd (nearest q k))
      else if filter (reads_back q k) (nearest q k) \<noteq> []
      then (k, hd (filter (reads_back q k) (nearest q k)))
      else shortest q (Suc k))"
  by pat_completeness auto
termination
  by (relation "measure (\<lambda>(q, k). 17 - k)") auto

declare shortest.simps [simp del]

definition strip_zeros :: "string \<Rightarrow> string" where
  "strip_zeros ds = rev (dropWhile (\<lambda>c. c = CHR ''0'') (rev ds))"

text \<open>
  The digits are written with the point in place when it falls within the range of
  \<^verbatim>\<open>repr\<close> (from \<^verbatim>\<open>0.0001\<close> up to 16 digits before the point), and with an
  exponent of at least two digits otherwise.
\<close>

definition float_repr :: "pyfloat \<Rightarrow> string" where
  "float_repr x =
     (case x of
        Infinity \<Rightarrow> ''inf''
      | Finite q0 \<Rightarrow>
          if q0 = 0 then ''0.0''
          else
            (let q = \<bar>q0\<bar>;
                 sign = (if q0 < 0 then ''-'' else []);
                 (k, c) = shortest q 1;
                 full = digits_of (nat c);
                 dp = dpoint q + (int (length full) - int k);
                 ds = strip_zeros full
             in if - 4 < dp \<and> dp \<le> 16
                then (if dp \<le> 0
                      then sign @ ''0.'' @ replicate (nat (- dp)) (CHR ''0'') @ ds
                      else if int (length ds) \<le> dp
                      then sign @ ds @ replicate (nat dp - length ds) (CHR ''0'') @ ''.0''
                      else sign @ take (nat dp) ds @ ''.'' @ drop (nat dp) ds)
                else
                  (let e = dp - 1;
                       es = digits_of (nat \<bar>e\<bar>)
                   in sign @ take 1 ds @
                      (if length ds = 1 then [] else ''.'' @ drop 1 ds) @
                      ''e'' @ (if e < 0 then ''-'' else ''+'') @
                      (if length es < 2 then ''0'' @ es else es))))"

text \<open>What an f-string writes for a value with no format specification.\<close>

definition py_str :: "nat \<Rightarrow> pyval \<Rightarrow> error + string" where
  "py_str max_str_digits v =
     (case v of PyInt i \<Rightarrow> py_str_int max_str_digits i | PyFloat x \<Rightarrow> Inr (float_repr x))"

subsection \<open>\<^verbatim>\<open>json.dumps(metrics, indent=2)\<close>\<close>

text \<open>
  A key is written between double quotes, with the escapes of
  \<^verbatim>\<open>ensure_ascii=True\<close>: a backslash before a double quote and a backslash, the
  short escapes of backspace, tab, newline, form feed and carriage return, and
  \<^verbatim>\<open>\u00XX\<close> for every other character outside the range from space to tilde.
\<close>

definition json_char :: "char \<Rightarrow> string" where
  "json_char c =
     (let n = (of_char c :: nat)
      in if n = 34 then [CHR 0x5C, CHR 0x22]
         else if n = 92 then [CHR 0x5C, CHR 0x5C]
         else if n = 8 then [CHR 0x5C, CHR ''b'']
         else if n = 9 then [CHR 0x5C, CHR ''t'']
         else if n = 10 then [CHR 0x5C, CHR ''n'']
         else if n = 12 then [CHR 0x5C, CHR ''f'']
         else if n = 13 then [CHR 0x5C, CHR ''r'']
         else if n < 32 \<or> 126 < n
           then [CHR 0x5C, CHR ''u'', CHR ''0'', CHR ''0'', digit_char (n div 16), digit_char (n mod 16)]
         else [c])"

definition json_string :: "string \<Rightarrow> string" where
  "json_string s = [CHR 0x22] @ concat (map json_char s) @ [CHR 0x22]"

text \<open>A float is written as its \<^verbatim>\<open>repr\<close>, and \<^verbatim>\<open>inf\<close> as \<^verbatim>\<open>Infinity\<close>.\<close>

definition json_float :: "pyfloat \<Rightarrow> string" where
  "json_float x = (case x of Infinity \<Rightarrow> ''Infinity'' | Finite q \<Rightarrow> float_repr (Finite q))"

definition json_value :: "nat \<Rightarrow> pyval \<Rightarrow> error + string" where
  "json_value max_str_digits v =
     (case v of
        PyInt i \<Rightarrow> py_str_int max_str_digits i
      | PyFloat x \<Rightarrow> Inr (json_float x))"

fun json_items :: "nat \<Rightarrow> metrics \<Rightarrow> error + string list" where
  "json_items max_str_digits [] = Inr []"
| "json_items max_str_digits ((k, v) # d) =
     and_then (json_value max_str_digits v) (\<lambda>j.
     and_then (json_items max_str_digits d) (\<lambda>js.
     Inr ((''  '' @ json_string k @ '': '' @ j) # js)))"

definition json_dumps :: "nat \<Rightarrow> metrics \<Rightarrow> error + string" where
  "json_dumps max_str_digits d =
     (if d = [] then Inr ''{}''
      else and_then (json_items max_str_digits d) (\<lambda>items.
             Inr (''{'' @ [CHR 0x0A] @ join ('','' @ [CHR 0x0A]) items @ [CHR 0x0A] @ ''}'')))"

subsection \<open>\<^verbatim>\<open>main\<close> (lines 31 to 55)\<close>

text \<open>
  How a run ends: \<^verbatim>\<open>main\<close> returns (exit status 0), raises
  \<^verbatim>\<open>typer.Exit(code)\<close> (exit status \<open>code\<close>), or an exception leaves it, which the
  interpreter reports on standard error with exit status 1.
\<close>

datatype outcome = Returned | Exit nat | Uncaught error

fun exit_status :: "outcome \<Rightarrow> nat" where
  "exit_status Returned = 0"
| "exit_status (Exit code) = code"
| "exit_status (Uncaught e) = 1"

text \<open>Standard output: every \<^verbatim>\<open>print\<close> writes its text and a newline.\<close>

fun written :: "effect \<Rightarrow> string" where
  "written (Print s) = s @ [CHR 0x0A]"
| "written (Exists p) = []"
| "written (ReadText p) = []"

definition stdout :: "effect list \<Rightarrow> string" where
  "stdout es = concat (map written es)"

text \<open>
  The f-string of line 51. Its three fields are evaluated and formatted from left to
  right; a key that is missing raises \<^verbatim>\<open>KeyError\<close>.
\<close>

definition success_rate_line :: "nat \<Rightarrow> metrics \<Rightarrow> error + string" where
  "success_rate_line max_str_digits metrics =
     and_then (and_then (dict_get metrics ''success_rate'') format_2f) (\<lambda>rate.
     and_then (and_then (dict_get metrics ''resolved_count'') (py_str max_str_digits)) (\<lambda>count.
     and_then (and_then (dict_get metrics ''resolved_total'') (py_str max_str_digits)) (\<lambda>total.
     Inr (''  Success Rate: '' @ rate @ ''% ('' @ count @ ''/'' @ total @ '')''))))"

text \<open>Line 38: where the report is looked for.\<close>

definition summary_path_of :: "string \<Rightarrow> path" where
  "summary_path_of experiment_dir =
     path_div (path_div (Path experiment_dir) ''artifacts'') ''summary_stats.md''"

text \<open>
  \<^verbatim>\<open>main\<close>, for the value of the option \<^verbatim>\<open>--experiment-dir\<close> (the parsing of the
  command line by \<^verbatim>\<open>typer\<close> comes before it). The result is the effects of the run
  in order and the way it ended.
\<close>

definition main :: "nat \<Rightarrow> filesystem \<Rightarrow> string \<Rightarrow> effect list \<times> outcome" where
  "main max_str_digits fs experiment_dir =
     (let summary_path = summary_path_of experiment_dir;
          checked = [Exists (path_str summary_path)]
      in case path_exists fs summary_path of
           Inl e \<Rightarrow> (checked, Uncaught e)
         | Inr found \<Rightarrow>
           if \<not> found
           then (checked @ [Print (''Error: Summary file not found at '' @ path_str summary_path)],
                 Exit 1)
           else
             (case get_metrics_from_summary max_str_digits fs summary_path of
                (reads, Inl e) \<Rightarrow> (checked @ reads, Uncaught e)
              | (reads, Inr metrics) \<Rightarrow>
                  if metrics = []
                  then (checked @ reads @
                          [Print (''Error: Could not parse any metrics from '' @ path_str summary_path)],
                        Exit 1)
                  else
                    (let head = checked @ reads @ [Print ''SWE-bench Evaluation Results:'']
                     in case (if dict_contains metrics ''success_rate''
                              then and_then (success_rate_line max_str_digits metrics)
                                     (\<lambda>line. Inr [Print line])
                              else Inr []) of
                          Inl e \<Rightarrow> (head, Uncaught e)
                        | Inr line \<Rightarrow>
                            (let title = [Print ([CHR 0x0A] @ ''Metrics (JSON):'')]
                             in case json_dumps max_str_digits metrics of
                                  Inl e \<Rightarrow> (head @ line @ title, Uncaught e)
                                | Inr json \<Rightarrow> (head @ line @ title @ [Print json], Returned)))))"

subsection \<open>The digits of the report\<close>



section \<open>Properties\<close>

subsection \<open>The matcher and the language of the pattern\<close>

lemma digit_not_space: "is_digit c \<Longrightarrow> \<not> is_space c"
  by (auto simp: is_digit_def is_space_def)

lemma takeWhile_run:
  "list_all P ws \<Longrightarrow> (s = [] \<or> \<not> P (hd s)) \<Longrightarrow> takeWhile P (ws @ s) = ws"
  by (induction ws) (auto simp: takeWhile_eq_Nil_iff)

lemma in_matches_Lit:
  "(s', g') \<in> set (matches (Lit w) s g) \<longleftrightarrow> g' = g \<and> s = w @ s'"
  by (auto elim!: prefixE)

lemma run_le_takeWhile:
  "list_all P u \<Longrightarrow> length u \<le> length (takeWhile P (u @ v))"
  by (induction u) auto

lemma take_takeWhile_all:
  "n \<le> length (takeWhile P s) \<Longrightarrow> list_all P (take n s)"
proof (induction s arbitrary: n)
  case Nil
  then show ?case by simp
next
  case (Cons c cs)
  then show ?case by (cases n) (auto split: if_splits)
qed

lemma in_set_matches_Star:
  "(s', g') \<in> set (matches (Star k) s g) \<longleftrightarrow>
     g' = g \<and> (\<exists>n. n \<le> length (takeWhile (in_class k) s) \<and> s' = drop n s)"
  by (auto simp del: upt_Suc simp add: image_iff less_Suc_eq_le)

lemma in_set_matches_Plus:
  "(s', g') \<in> set (matches (Plus k) s g) \<longleftrightarrow>
     g' = g \<and> (\<exists>n. 1 \<le> n \<and> n \<le> length (takeWhile (in_class k) s) \<and> s' = drop n s)"
  by (auto simp del: upt_Suc simp add: image_iff less_Suc_eq_le)

lemma in_matches_Star:
  "(s', g') \<in> set (matches (Star k) s g) \<longleftrightarrow>
     g' = g \<and> (\<exists>u. s = u @ s' \<and> list_all (in_class k) u)"
proof
  assume "(s', g') \<in> set (matches (Star k) s g)"
  then obtain n where n: "n \<le> length (takeWhile (in_class k) s)" "s' = drop n s" "g' = g"
    unfolding in_set_matches_Star by blast
  then have "s = take n s @ s'" "list_all (in_class k) (take n s)"
    by (auto intro: take_takeWhile_all)
  with n show "g' = g \<and> (\<exists>u. s = u @ s' \<and> list_all (in_class k) u)" by blast
next
  assume "g' = g \<and> (\<exists>u. s = u @ s' \<and> list_all (in_class k) u)"
  then obtain u where u: "g' = g" "s = u @ s'" "list_all (in_class k) u" by blast
  then have "length u \<le> length (takeWhile (in_class k) s)" by (simp add: run_le_takeWhile)
  moreover have "s' = drop (length u) s" using u by simp
  ultimately show "(s', g') \<in> set (matches (Star k) s g)"
    unfolding in_set_matches_Star using u by blast
qed

lemma in_matches_Plus:
  "(s', g') \<in> set (matches (Plus k) s g) \<longleftrightarrow>
     g' = g \<and> (\<exists>u. s = u @ s' \<and> u \<noteq> [] \<and> list_all (in_class k) u)"
proof
  assume "(s', g') \<in> set (matches (Plus k) s g)"
  then obtain n where n: "1 \<le> n" "n \<le> length (takeWhile (in_class k) s)" "s' = drop n s" "g' = g"
    unfolding in_set_matches_Plus by blast
  then have "s = take n s @ s'" "list_all (in_class k) (take n s)"
    by (auto intro: take_takeWhile_all)
  moreover have "take n s \<noteq> []" using n by (cases s) auto
  ultimately show "g' = g \<and> (\<exists>u. s = u @ s' \<and> u \<noteq> [] \<and> list_all (in_class k) u)"
    using n by blast
next
  assume "g' = g \<and> (\<exists>u. s = u @ s' \<and> u \<noteq> [] \<and> list_all (in_class k) u)"
  then obtain u where u: "g' = g" "s = u @ s'" "u \<noteq> []" "list_all (in_class k) u" by blast
  then have "length u \<le> length (takeWhile (in_class k) s)" by (simp add: run_le_takeWhile)
  moreover have "s' = drop (length u) s" using u by simp
  moreover have "1 \<le> length u" using u by (cases u) auto
  ultimately show "(s', g') \<in> set (matches (Plus k) s g)"
    unfolding in_set_matches_Plus using u by blast
qed

lemma in_matches_Seq:
  "x \<in> set (matches (Seq r1 r2) s g) \<longleftrightarrow>
     (\<exists>s1 g1. (s1, g1) \<in> set (matches r1 s g) \<and> x \<in> set (matches r2 s1 g1))"
  by auto

lemma in_matches_Group:
  "(s', g') \<in> set (matches (Group i r) s g) \<longleftrightarrow>
     (\<exists>g0. (s', g0) \<in> set (matches r s g) \<and> g' = g0(i \<mapsto> take (length s - length s') s))"
  by (force simp: image_iff)

text \<open>Every entry of the list is a match of the language, and every match is listed.\<close>

lemma matches_lang:
  "(\<exists>g'. (s', g') \<in> set (matches r s g)) \<longleftrightarrow> (\<exists>u. s = u @ s' \<and> u \<in> lang r)"
proof (induction r arbitrary: s s' g)
  case (Lit w)
  show ?case by (auto simp: in_matches_Lit simp del: matches.simps)
next
  case (Star k)
  show ?case by (auto simp: in_matches_Star simp del: matches.simps)
next
  case (Plus k)
  show ?case by (auto simp: in_matches_Plus simp del: matches.simps)
next
  case (Seq r1 r2)
  show ?case
  proof
    assume "\<exists>g'. (s', g') \<in> set (matches (Seq r1 r2) s g)"
    then obtain g' s1 g1 where a: "(s1, g1) \<in> set (matches r1 s g)"
      and b: "(s', g') \<in> set (matches r2 s1 g1)"
      unfolding in_matches_Seq by blast
    from a Seq.IH(1)[of s1 s g] obtain u where u: "s = u @ s1" "u \<in> lang r1" by blast
    from b Seq.IH(2)[of s' s1 g1] obtain v where v: "s1 = v @ s'" "v \<in> lang r2" by blast
    from u v have "s = (u @ v) @ s'" "u @ v \<in> lang (Seq r1 r2)" by auto
    then show "\<exists>u. s = u @ s' \<and> u \<in> lang (Seq r1 r2)" by blast
  next
    assume "\<exists>u. s = u @ s' \<and> u \<in> lang (Seq r1 r2)"
    then obtain u v where uv: "s = (u @ v) @ s'" "u \<in> lang r1" "v \<in> lang r2" by auto
    then have "\<exists>w. s = w @ (v @ s') \<and> w \<in> lang r1" by auto
    with Seq.IH(1)[of "v @ s'" s g] obtain g1 where a: "(v @ s', g1) \<in> set (matches r1 s g)"
      by blast
    from uv have "\<exists>w. v @ s' = w @ s' \<and> w \<in> lang r2" by auto
    with Seq.IH(2)[of s' "v @ s'" g1] obtain g' where "(s', g') \<in> set (matches r2 (v @ s') g1)"
      by blast
    with a show "\<exists>g'. (s', g') \<in> set (matches (Seq r1 r2) s g)"
      unfolding in_matches_Seq by blast
  qed
next
  case (Group i r)
  show ?case using Group.IH[of s' s g] by (auto simp: in_matches_Group simp del: matches.simps)
qed

lemma matches_Nil_iff:
  "matches r s g = [] \<longleftrightarrow> \<not> (\<exists>u v. s = u @ v \<and> u \<in> lang r)"
proof -
  have "matches r s g \<noteq> [] \<longleftrightarrow> (\<exists>s' g'. (s', g') \<in> set (matches r s g))"
    by (cases "matches r s g") auto
  also have "\<dots> \<longleftrightarrow> (\<exists>s' u. s = u @ s' \<and> u \<in> lang r)"
    using matches_lang[of _ r s g] by blast
  finally show ?thesis by blast
qed

lemma re_match_None_iff:
  "re_match r s = None \<longleftrightarrow> \<not> (\<exists>u v. s = u @ v \<and> u \<in> lang r)"
  unfolding matches_Nil_iff[of r s Map.empty, symmetric] re_match_def first_match_def
  by (auto split: list.splits)

lemma re_match_None_match_at:
  "i \<le> length s \<Longrightarrow> re_match r (drop i s) = None \<longleftrightarrow> \<not> match_at r s i"
  by (auto simp: re_match_None_iff match_at_def)

lemma re_search_None_iff: "re_search r s = None \<longleftrightarrow> \<not> contains_match r s"
proof (induction s)
  case Nil
  show ?case by (auto simp: re_match_None_iff contains_match_def)
next
  case (Cons c cs)
  have "contains_match r (c # cs) \<longleftrightarrow>
          (\<exists>u v. c # cs = u @ v \<and> u \<in> lang r) \<or> contains_match r cs"
  proof
    assume "contains_match r (c # cs)"
    then obtain p u q where pq: "c # cs = p @ u @ q" "u \<in> lang r"
      unfolding contains_match_def by blast
    show "(\<exists>u v. c # cs = u @ v \<and> u \<in> lang r) \<or> contains_match r cs"
    proof (cases p)
      case Nil
      with pq show ?thesis by auto
    next
      case (Cons a p')
      with pq have "cs = p' @ u @ q" by simp
      with pq show ?thesis unfolding contains_match_def by blast
    qed
  next
    assume "(\<exists>u v. c # cs = u @ v \<and> u \<in> lang r) \<or> contains_match r cs"
    then show "contains_match r (c # cs)"
    proof
      assume "\<exists>u v. c # cs = u @ v \<and> u \<in> lang r"
      then obtain u v where "c # cs = [] @ u @ v" "u \<in> lang r" by auto
      then show ?thesis unfolding contains_match_def by blast
    next
      assume "contains_match r cs"
      then obtain p u q where "cs = p @ u @ q" "u \<in> lang r"
        unfolding contains_match_def by blast
      then have "c # cs = (c # p) @ u @ q" by simp
      with \<open>u \<in> lang r\<close> show ?thesis unfolding contains_match_def by blast
    qed
  qed
  moreover have "re_search r (c # cs) = None \<longleftrightarrow>
      re_match r (c # cs) = None \<and> re_search r cs = None"
    by (simp split: option.splits)
  ultimately show ?case
    using Cons by (simp add: re_match_None_iff)
qed

lemma first_match_Lit: "first_match (Lit w) (w @ s) g = Some (s, g)"
  by (simp add: first_match_def)

lemma rev_upt_Suc: "i \<le> n \<Longrightarrow> rev [i ..< Suc n] = n # rev [i ..< n]"
  by simp

lemma first_match_Star:
  assumes "list_all (in_class k) ws" and "s = [] \<or> \<not> in_class k (hd s)"
  shows "first_match (Star k) (ws @ s) g = Some (s, g)"
proof -
  have "takeWhile (in_class k) (ws @ s) = ws" using assms by (rule takeWhile_run)
  then show ?thesis by (simp add: first_match_def)
qed

lemma first_match_Plus:
  assumes "list_all (in_class k) ws" and "ws \<noteq> []" and "s = [] \<or> \<not> in_class k (hd s)"
  shows "first_match (Plus k) (ws @ s) g = Some (s, g)"
proof -
  have "takeWhile (in_class k) (ws @ s) = ws" using assms(1,3) by (rule takeWhile_run)
  moreover have "1 \<le> length ws" using assms(2) by (cases ws) auto
  ultimately show ?thesis by (simp add: first_match_def)
qed

lemma first_match_Seq:
  assumes "first_match r1 s g = Some (s1, g1)" and "first_match r2 s1 g1 = Some x"
  shows "first_match (Seq r1 r2) s g = Some x"
  using assms by (auto simp: first_match_def split: list.splits)

lemma first_match_Group:
  assumes "first_match r s g = Some (s', g')"
  shows "first_match (Group i r) s g = Some (s', g'(i \<mapsto> take (length s - length s') s))"
  using assms by (auto simp: first_match_def split: list.splits)

lemma all_digits_run: "all_digits ds \<Longrightarrow> list_all (in_class Digit) ds \<and> ds \<noteq> []"
  by (simp add: all_digits_def list_all_iff)

lemma first_match_digits:
  assumes "all_digits ds" and "s = [] \<or> \<not> is_digit (hd s)"
  shows "first_match (Plus Digit) (ds @ s) g = Some (s, g)"
  using assms by (intro first_match_Plus) (auto simp: all_digits_run)

lemma first_match_group_digits:
  assumes "all_digits ds" and "s = [] \<or> \<not> is_digit (hd s)"
  shows "first_match (Group i (Plus Digit)) (ds @ s) g = Some (s, g(i \<mapsto> ds))"
  using first_match_Group[OF first_match_digits[OF assms], where i = i] by simp

lemma first_match_space:
  assumes "s = [] \<or> \<not> is_space (hd s)"
  shows "first_match (Star Space) ('' '' @ s) g = Some (s, g)"
  using assms by (intro first_match_Star) (auto simp: is_space_def)

lemma hd_digits_not_space: "all_digits ds \<Longrightarrow> \<not> is_space (hd (ds @ s))"
  by (cases ds) (auto simp: all_digits_def digit_not_space)

lemma first_match_number:
  assumes "all_digits zi" and "all_digits zf" and "s = [] \<or> \<not> is_digit (hd s)"
  shows "first_match (Group 3 (cat [Plus Digit, Lit ''.'', Plus Digit])) (zi @ ''.'' @ zf @ s) g
           = Some (s, g(3 \<mapsto> zi @ ''.'' @ zf))"
proof -
  have a: "first_match (Plus Digit) (zi @ ''.'' @ zf @ s) g = Some (''.'' @ zf @ s, g)"
    using assms(1) by (intro first_match_digits) (auto simp: is_digit_def)
  have b: "first_match (Lit ''.'') (''.'' @ zf @ s) g = Some (zf @ s, g)"
    by (rule first_match_Lit)
  have c: "first_match (Plus Digit) (zf @ s) g = Some (s, g)"
    using assms(2,3) by (rule first_match_digits)
  have "first_match (cat [Plus Digit, Lit ''.'', Plus Digit]) (zi @ ''.'' @ zf @ s) g = Some (s, g)"
    using first_match_Seq[OF a first_match_Seq[OF b c]] by simp
  from first_match_Group[OF this, where i = 3] show ?thesis by simp
qed

text \<open>The first way to match a line written with single spaces takes its three tokens whole.\<close>

lemma first_match_line:
  assumes X: "all_digits X" and Y: "all_digits Y" and Zi: "all_digits Zi" and Zf: "all_digits Zf"
  shows "first_match resolved_pattern
           (''Resolved: '' @ X @ '' / '' @ Y @ '' '' @ Zi @ ''.'' @ Zf @ ''%'' @ post) Map.empty
         = Some (post, [1 \<mapsto> X, 2 \<mapsto> Y, 3 \<mapsto> Zi @ ''.'' @ Zf])"
proof -
  let ?g1 = "[1 \<mapsto> X]"
  let ?g2 = "[1 \<mapsto> X, 2 \<mapsto> Y]"
  let ?g3 = "[1 \<mapsto> X, 2 \<mapsto> Y, 3 \<mapsto> Zi @ ''.'' @ Zf]"
  let ?t9 = "''%'' @ post"
  let ?t8 = "Zi @ ''.'' @ Zf @ ?t9"
  let ?t7 = "'' '' @ ?t8"
  let ?t6 = "Y @ ?t7"
  let ?t5 = "'' '' @ ?t6"
  let ?t4 = "''/'' @ ?t5"
  let ?t3 = "'' '' @ ?t4"
  let ?t2 = "X @ ?t3"
  let ?t1 = "'' '' @ ?t2"
  have m10: "first_match (Lit ''%'') ?t9 ?g3 = Some (post, ?g3)"
    by (rule first_match_Lit)
  have m9: "first_match (Group 3 (cat [Plus Digit, Lit ''.'', Plus Digit])) ?t8 ?g2 = Some (?t9, ?g3)"
    using first_match_number[OF Zi Zf, where s = ?t9 and g = ?g2] by (simp add: is_digit_def)
  have m8: "first_match (Star Space) ?t7 ?g2 = Some (?t8, ?g2)"
    using hd_digits_not_space[OF Zi] by (intro first_match_space) simp
  have m7: "first_match (Group 2 (Plus Digit)) ?t6 ?g1 = Some (?t7, ?g2)"
    using first_match_group_digits[OF Y, where s = ?t7 and i = 2 and g = ?g1] by (simp add: is_digit_def)
  have m6: "first_match (Star Space) ?t5 ?g1 = Some (?t6, ?g1)"
    using hd_digits_not_space[OF Y] by (intro first_match_space) simp
  have m5: "first_match (Lit ''/'') ?t4 ?g1 = Some (?t5, ?g1)"
    by (rule first_match_Lit)
  have m4: "first_match (Star Space) ?t3 ?g1 = Some (?t4, ?g1)"
    by (intro first_match_space) (simp add: is_space_def)
  have m3: "first_match (Group 1 (Plus Digit)) ?t2 Map.empty = Some (?t3, ?g1)"
    using first_match_group_digits[OF X, where s = ?t3 and i = 1 and g = Map.empty] by (simp add: is_digit_def)
  have m2: "first_match (Star Space) ?t1 Map.empty = Some (?t2, Map.empty)"
    using hd_digits_not_space[OF X] by (intro first_match_space) simp
  have m1: "first_match (Lit ''Resolved:'') (''Resolved:'' @ ?t1) Map.empty = Some (?t1, Map.empty)"
    by (rule first_match_Lit)
  note chain = first_match_Seq[OF m1 first_match_Seq[OF m2 first_match_Seq[OF m3
    first_match_Seq[OF m4 first_match_Seq[OF m5 first_match_Seq[OF m6 first_match_Seq[OF m7
    first_match_Seq[OF m8 first_match_Seq[OF m9 m10]]]]]]]]]
  then show ?thesis by (simp add: resolved_pattern_def)
qed

lemma re_search_first: "re_match r s = Some g \<Longrightarrow> re_search r s = Some g"
  by (cases s) auto

lemma match_at_Cons: "match_at r (c # s) (Suc i) \<longleftrightarrow> match_at r s i"
  by (simp add: match_at_def)

lemma re_search_skip:
  "(\<forall>i<length pre. \<not> match_at r (pre @ s) i) \<Longrightarrow> re_search r (pre @ s) = re_search r s"
proof (induction pre)
  case Nil
  show ?case by simp
next
  case (Cons c pre)
  from Cons.prems have "\<not> match_at r ((c # pre) @ s) 0" by auto
  then have none: "re_match r (c # pre @ s) = None"
    using re_match_None_match_at[of 0 "c # pre @ s" r] by simp
  have "\<forall>i<length pre. \<not> match_at r (pre @ s) i"
  proof (intro allI impI)
    fix i assume "i < length pre"
    then have "\<not> match_at r ((c # pre) @ s) (Suc i)" using Cons.prems by auto
    then show "\<not> match_at r (pre @ s) i" by (simp add: match_at_Cons)
  qed
  with Cons.IH have "re_search r (pre @ s) = re_search r s" by blast
  with none show ?case by simp
qed

lemma re_match_in_matches:
  "re_match r t = Some m \<Longrightarrow> \<exists>s'. (s', m) \<in> set (matches r t Map.empty)"
  by (cases "matches r t Map.empty") (auto simp: re_match_def first_match_def)

lemma re_search_in_matches:
  "re_search r s = Some m \<Longrightarrow> \<exists>t s'. (s', m) \<in> set (matches r t Map.empty)"
proof (induction s)
  case Nil
  then show ?case using re_match_in_matches[of r "[]" m] by auto
next
  case (Cons c cs)
  show ?case
  proof (cases "re_match r (c # cs)")
    case None
    with Cons show ?thesis by simp
  next
    case (Some g)
    with Cons.prems have "g = m" by simp
    with Some show ?thesis using re_match_in_matches[of r "c # cs" m] by auto
  qed
qed

lemma in_matches_group_digits:
  assumes "(s', g') \<in> set (matches (Group i (Plus Digit)) s g)"
  shows "\<exists>u. all_digits u \<and> g' = g(i \<mapsto> u) \<and> s = u @ s'"
proof -
  from assms obtain u where "s = u @ s'" "u \<noteq> []" "list_all (in_class Digit) u"
    and g': "g' = g(i \<mapsto> take (length s - length s') s)"
    unfolding in_matches_Group in_matches_Plus by blast
  then show ?thesis by (auto simp: all_digits_def list_all_iff)
qed

lemma in_matches_number:
  assumes "(s', g') \<in> set (matches (Group i (Seq (Plus Digit) (Seq (Lit ''.'') (Plus Digit)))) s g)"
  shows "\<exists>zi zf. all_digits zi \<and> all_digits zf \<and> g' = g(i \<mapsto> zi @ ''.'' @ zf)
           \<and> s = zi @ ''.'' @ zf @ s'"
proof -
  from assms obtain zi zf s1 s2 where "s = zi @ s1" "zi \<noteq> []" "list_all (in_class Digit) zi"
      "s1 = ''.'' @ s2" "s2 = zf @ s'" "zf \<noteq> []" "list_all (in_class Digit) zf"
    and g': "g' = g(i \<mapsto> take (length s - length s') s)"
    unfolding in_matches_Group in_matches_Seq in_matches_Plus in_matches_Lit by blast
  then show ?thesis by (auto simp: all_digits_def list_all_iff)
qed

text \<open>Whatever way the pattern matches, its three groups are two numerals and a decimal.\<close>

lemma matches_resolved_groups:
  assumes "(s', g') \<in> set (matches resolved_pattern s g)"
  shows "\<exists>x y zi zf. all_digits x \<and> all_digits y \<and> all_digits zi \<and> all_digits zf \<and>
           g' 1 = Some x \<and> g' 2 = Some y \<and> g' 3 = Some (zi @ ''.'' @ zf)"
proof -
  from assms obtain s2 s3 s6 s7 s8 s9 g3 g7 g9 where
      a: "(s3, g3) \<in> set (matches (Group 1 (Plus Digit)) s2 g)"
    and b: "(s7, g7) \<in> set (matches (Group 2 (Plus Digit)) s6 g3)"
    and c: "(s9, g9) \<in> set (matches (Group 3 (Seq (Plus Digit) (Seq (Lit ''.'') (Plus Digit)))) s8 g7)"
    and d: "g' = g9"
    unfolding resolved_pattern_def cat.simps in_matches_Seq in_matches_Lit in_matches_Star
    by blast
  from in_matches_group_digits[OF a] obtain x where x: "all_digits x" "g3 = g(1 \<mapsto> x)" by blast
  from in_matches_group_digits[OF b] obtain y where y: "all_digits y" "g7 = g3(2 \<mapsto> y)" by blast
  from in_matches_number[OF c] obtain zi zf where
    z: "all_digits zi" "all_digits zf" "g9 = g7(3 \<mapsto> zi @ ''.'' @ zf)" by blast
  from x y z d have "g' 1 = Some x" "g' 2 = Some y" "g' 3 = Some (zi @ ''.'' @ zf)" by simp_all
  with x y z show ?thesis by blast
qed

lemma re_search_resolved_groups:
  assumes "re_search resolved_pattern s = Some m"
  shows "\<exists>x y zi zf. all_digits x \<and> all_digits y \<and> all_digits zi \<and> all_digits zf \<and>
           m 1 = Some x \<and> m 2 = Some y \<and> m 3 = Some (zi @ ''.'' @ zf)"
  using re_search_in_matches[OF assms] matches_resolved_groups by blast

lemma spaces_run: "list_all is_space w \<Longrightarrow> w \<in> lang (Star Space)"
  by (simp add: list_all_iff)

lemma digits_lang: "all_digits ds \<Longrightarrow> ds \<in> lang (Plus Digit)"
  by (simp add: all_digits_def list_all_iff)

lemma lang_SeqI: "u \<in> lang r1 \<Longrightarrow> v \<in> lang r2 \<Longrightarrow> u @ v \<in> lang (Seq r1 r2)"
  by auto

text \<open>Any whitespace, or none, may stand between the tokens of a match.\<close>

lemma lang_resolved_pattern:
  assumes "list_all is_space w1" and "list_all is_space w2" and "list_all is_space w3"
    and "list_all is_space w4"
    and "all_digits X" and "all_digits Y" and "all_digits Zi" and "all_digits Zf"
  shows "''Resolved:'' @ w1 @ X @ w2 @ ''/'' @ w3 @ Y @ w4 @ Zi @ ''.'' @ Zf @ ''%''
           \<in> lang resolved_pattern"
proof -
  have z: "Zi @ ''.'' @ Zf \<in> lang (Group 3 (cat [Plus Digit, Lit ''.'', Plus Digit]))"
    using lang_SeqI[OF digits_lang[OF assms(7)] lang_SeqI[OF _ digits_lang[OF assms(8)], of "''.''" "Lit ''.''"]]
    by simp
  have "''Resolved:'' @ w1 @ X @ w2 @ ''/'' @ w3 @ Y @ w4 @ (Zi @ ''.'' @ Zf) @ ''%''
           \<in> lang resolved_pattern"
    unfolding resolved_pattern_def cat.simps
    apply (intro lang_SeqI)
    using assms z by (simp_all add: all_digits_def list_all_iff del: lang.simps(4))
  then show ?thesis by simp
qed

subsection \<open>Conversions\<close>

lemma py_float_decimal:
  assumes "all_digits zi" and "all_digits zf"
  shows "py_float (zi @ ''.'' @ zf) =
           Inr (round_binary64 (of_nat (decimal_value (zi @ zf)) / 10 ^ length zf))"
proof -
  have tw: "takeWhile is_digit (zi @ ''.'' @ zf) = zi"
    using assms(1) by (intro takeWhile_run) (auto simp: all_digits_def is_digit_def)
  have "dropWhile is_digit (zi @ ''.'' @ zf) = drop (length zi) (zi @ ''.'' @ zf)"
    using tw by (metis dropWhile_eq_drop)
  then have dw: "dropWhile is_digit (zi @ ''.'' @ zf) = CHR ''.'' # zf" by simp
  show ?thesis
    unfolding py_float_def tw dw using assms by simp
qed

lemma decimal_value_snoc: "decimal_value (s @ [c]) = 10 * decimal_value s + digit_value c"
  by (simp add: decimal_value_def)

lemma decimal_value_less: "list_all is_digit s \<Longrightarrow> decimal_value s < 10 ^ length s"
proof (induction s rule: rev_induct)
  case Nil
  show ?case by (simp add: decimal_value_def)
next
  case (snoc c s)
  then have "decimal_value s < 10 ^ length s" and "digit_value c \<le> 9"
    by (auto simp: is_digit_def digit_value_def)
  then have "10 * decimal_value s + digit_value c < 10 * 10 ^ length s" by linarith
  then show ?case by (simp add: decimal_value_snoc)
qed

lemma length_digits_of: "0 < k \<Longrightarrow> n < 10 ^ k \<Longrightarrow> length (digits_of n) \<le> k"
proof (induction n arbitrary: k rule: digits_of.induct)
  case (1 n)
  show ?case
  proof (cases "n < 10")
    case True
    with 1 show ?thesis by (simp add: digits_of.simps)
  next
    case False
    from 1(2,3) False obtain j where k: "k = Suc j" by (cases k) auto
    with 1(3) False have j: "0 < j" by (cases j) auto
    from 1(3) k have "n div 10 < 10 ^ j" by (simp add: less_mult_imp_div_less mult.commute)
    with 1(1)[OF False j] have "length (digits_of (n div 10)) \<le> j" by simp
    with False k show ?thesis by (simp add: digits_of.simps[of n])
  qed
qed

lemma over_limit_mono: "over_limit l n \<Longrightarrow> n \<le> m \<Longrightarrow> over_limit l m"
  by (auto simp: over_limit_def)

text \<open>A number that \<^verbatim>\<open>int\<close> read from a text can be written again.\<close>

lemma py_str_int_decimal:
  assumes "all_digits s" and "\<not> over_limit l (length s)"
  shows "py_str_int l (int (decimal_value s)) = Inr (digits_of (decimal_value s))"
proof -
  from assms(1) have "0 < length s" "decimal_value s < 10 ^ length s"
    by (auto simp: all_digits_def decimal_value_less)
  then have "length (digits_of (decimal_value s)) \<le> length s" by (rule length_digits_of)
  with assms(2) have "\<not> over_limit l (length (digits_of (decimal_value s)))"
    using over_limit_mono by blast
  then show ?thesis by (simp add: py_str_int_def)
qed

subsection \<open>The extractor\<close>

lemma get_metrics_unreadable:
  "read_text fs p = Inl e \<Longrightarrow>
     get_metrics_from_summary l fs p = ([ReadText (path_str p)], Inl e)"
  by (simp add: get_metrics_from_summary_def and_then_def)

lemma get_metrics_no_match:
  assumes "read_text fs p = Inr content" and "\<not> contains_match resolved_pattern content"
  shows "get_metrics_from_summary l fs p = ([ReadText (path_str p)], Inr [])"
proof -
  from assms(2) have "re_search resolved_pattern content = None"
    by (simp add: re_search_None_iff)
  with assms(1) show ?thesis
    by (simp add: get_metrics_from_summary_def and_then_def)
qed

lemma get_metrics_groups:
  assumes "read_text fs p = Inr content"
    and "re_search resolved_pattern content = Some m"
    and "m 1 = Some x" and "m 2 = Some y" and "m 3 = Some (zi @ ''.'' @ zf)"
    and "all_digits x" and "all_digits y" and "all_digits zi" and "all_digits zf"
  shows "get_metrics_from_summary l fs p =
    ([ReadText (path_str p)],
     if over_limit l (length x) \<or> over_limit l (length y) then Inl ValueError
     else Inr [(''resolved_count'', PyInt (int (decimal_value x))),
               (''resolved_total'', PyInt (int (decimal_value y))),
               (''success_rate'',
                PyFloat (round_binary64 (of_nat (decimal_value (zi @ zf)) / 10 ^ length zf)))])"
  using assms py_float_decimal[of zi zf]
  by (simp add: get_metrics_from_summary_def and_then_def group_def py_int_def)

text \<open>What the extractor can return: nothing, or the three entries in this order.\<close>

lemma get_metrics_returns:
  assumes "snd (get_metrics_from_summary l fs p) = Inr metrics"
  shows "metrics = [] \<or>
    (\<exists>x y zi zf. all_digits x \<and> all_digits y \<and> all_digits zi \<and> all_digits zf \<and>
       \<not> over_limit l (length x) \<and> \<not> over_limit l (length y) \<and>
       metrics = [(''resolved_count'', PyInt (int (decimal_value x))),
                  (''resolved_total'', PyInt (int (decimal_value y))),
                  (''success_rate'',
                   PyFloat (round_binary64 (of_nat (decimal_value (zi @ zf)) / 10 ^ length zf)))])"
proof (cases "read_text fs p")
  case (Inl e)
  with assms show ?thesis by (simp add: get_metrics_unreadable)
next
  case (Inr content)
  show ?thesis
  proof (cases "re_search resolved_pattern content")
    case None
    with Inr assms show ?thesis
      by (simp add: get_metrics_from_summary_def and_then_def)
  next
    case (Some m)
    from re_search_resolved_groups[OF Some] obtain x y zi zf where
      g: "all_digits x" "all_digits y" "all_digits zi" "all_digits zf"
         "m 1 = Some x" "m 2 = Some y" "m 3 = Some (zi @ ''.'' @ zf)" by blast
    from get_metrics_groups[OF Inr Some g(5,6,7,1,2,3,4), of l] assms
    have "\<not> (over_limit l (length x) \<or> over_limit l (length y))" and
      "metrics = [(''resolved_count'', PyInt (int (decimal_value x))),
                  (''resolved_total'', PyInt (int (decimal_value y))),
                  (''success_rate'',
                   PyFloat (round_binary64 (of_nat (decimal_value (zi @ zf)) / 10 ^ length zf)))]"
      by (auto split: if_splits)
    with g show ?thesis by blast
  qed
qed

text \<open>The only exceptions that leave the extractor.\<close>

lemma get_metrics_raises:
  assumes "snd (get_metrics_from_summary l fs p) = Inl e"
  shows "(read_text fs p = Inl e) \<or>
    (e = ValueError \<and> (\<exists>content m x y. read_text fs p = Inr content \<and>
       re_search resolved_pattern content = Some m \<and> m 1 = Some x \<and> m 2 = Some y \<and>
       (over_limit l (length x) \<or> over_limit l (length y))))"
proof (cases "read_text fs p")
  case (Inl e')
  with assms show ?thesis by (simp add: get_metrics_unreadable)
next
  case (Inr content)
  show ?thesis
  proof (cases "re_search resolved_pattern content")
    case None
    with Inr assms show ?thesis
      by (simp add: get_metrics_from_summary_def and_then_def)
  next
    case (Some m)
    from re_search_resolved_groups[OF Some] obtain x y zi zf where
      g: "all_digits x" "all_digits y" "all_digits zi" "all_digits zf"
         "m 1 = Some x" "m 2 = Some y" "m 3 = Some (zi @ ''.'' @ zf)" by blast
    from get_metrics_groups[OF Inr Some g(5,6,7,1,2,3,4), of l] assms
    have "over_limit l (length x) \<or> over_limit l (length y)" and "e = ValueError"
      by (auto split: if_splits)
    with g Inr Some show ?thesis by blast
  qed
qed

lemma re_search_line:
  assumes "all_digits X" and "all_digits Y" and "all_digits Zi" and "all_digits Zf"
    and "\<forall>i<length pre. \<not> match_at resolved_pattern
           (pre @ ''Resolved: '' @ X @ '' / '' @ Y @ '' '' @ Zi @ ''.'' @ Zf @ ''%'' @ post) i"
  shows "re_search resolved_pattern
           (pre @ ''Resolved: '' @ X @ '' / '' @ Y @ '' '' @ Zi @ ''.'' @ Zf @ ''%'' @ post)
         = Some [1 \<mapsto> X, 2 \<mapsto> Y, 3 \<mapsto> Zi @ ''.'' @ Zf]"
proof -
  let ?line = "''Resolved: '' @ X @ '' / '' @ Y @ '' '' @ Zi @ ''.'' @ Zf @ ''%'' @ post"
  have "re_match resolved_pattern ?line = Some [1 \<mapsto> X, 2 \<mapsto> Y, 3 \<mapsto> Zi @ ''.'' @ Zf]"
    using first_match_line[OF assms(1-4), of post] by (simp add: re_match_def)
  then have "re_search resolved_pattern ?line = Some [1 \<mapsto> X, 2 \<mapsto> Y, 3 \<mapsto> Zi @ ''.'' @ Zf]"
    by (rule re_search_first)
  with re_search_skip[OF assms(5)] show ?thesis by simp
qed

text \<open>The extractor on a text whose first match is a line written with single spaces.\<close>

lemma get_metrics_line:
  assumes "read_text fs p =
             Inr (pre @ ''Resolved: '' @ X @ '' / '' @ Y @ '' '' @ Zi @ ''.'' @ Zf @ ''%'' @ post)"
    and "all_digits X" and "all_digits Y" and "all_digits Zi" and "all_digits Zf"
    and "\<forall>i<length pre. \<not> match_at resolved_pattern
           (pre @ ''Resolved: '' @ X @ '' / '' @ Y @ '' '' @ Zi @ ''.'' @ Zf @ ''%'' @ post) i"
  shows "get_metrics_from_summary l fs p =
    ([ReadText (path_str p)],
     if over_limit l (length X) \<or> over_limit l (length Y) then Inl ValueError
     else Inr [(''resolved_count'', PyInt (int (decimal_value X))),
               (''resolved_total'', PyInt (int (decimal_value Y))),
               (''success_rate'',
                PyFloat (round_binary64 (of_nat (decimal_value (Zi @ Zf)) / 10 ^ length Zf)))])"
  using get_metrics_groups[OF assms(1) re_search_line[OF assms(2-6)], of X Y Zi Zf l] assms(2-5)
  by simp

lemma no_match_before:
  "(\<forall>i<n. re_match r (drop i s) = None) \<Longrightarrow> n \<le> length s \<Longrightarrow> \<forall>i<n. \<not> match_at r s i"
  using re_match_None_match_at by fastforce

subsection \<open>The orchestrator\<close>

lemma stdout_simps:
  "stdout [] = []"
  "stdout (Print s # es) = s @ [CHR 0x0A] @ stdout es"
  "stdout (Exists p # es) = stdout es"
  "stdout (ReadText p # es) = stdout es"
  by (simp_all add: stdout_def)

lemma fst_get_metrics: "fst (get_metrics_from_summary l fs p) = [ReadText (path_str p)]"
  by (simp add: get_metrics_from_summary_def)

lemma get_metrics_pair:
  "get_metrics_from_summary l fs p = ([ReadText (path_str p)], snd (get_metrics_from_summary l fs p))"
  by (simp add: get_metrics_from_summary_def)

lemma read_text_errors:
  "read_text fs p = Inl e \<Longrightarrow> e = OSError \<or> e = UnicodeDecodeError"
  by (auto simp: read_text_def split: option.splits entry.splits)

lemma main_no_metrics:
  assumes "path_exists fs (summary_path_of d) = Inr True"
    and "snd (get_metrics_from_summary l fs (summary_path_of d)) = Inr []"
  shows "main l fs d =
           ([Exists (path_str (summary_path_of d)), ReadText (path_str (summary_path_of d)),
             Print (''Error: Could not parse any metrics from '' @ path_str (summary_path_of d))],
            Exit 1)"
  using assms get_metrics_pair[of l fs "summary_path_of d"]
  by (simp add: main_def Let_def)

lemma main_raises:
  assumes "path_exists fs (summary_path_of d) = Inr True"
    and "snd (get_metrics_from_summary l fs (summary_path_of d)) = Inl e"
  shows "main l fs d =
           ([Exists (path_str (summary_path_of d)), ReadText (path_str (summary_path_of d))],
            Uncaught e)"
  using assms get_metrics_pair[of l fs "summary_path_of d"]
  by (simp add: main_def Let_def)

lemma format_2f_float: "\<exists>s. format_2f (PyFloat r) = Inr s"
  by (cases r) (simp_all add: format_2f_def Let_def)

text \<open>The success path on the three entries the extractor returns.\<close>

lemma main_reports:
  assumes ex: "path_exists fs (summary_path_of d) = Inr True"
    and got: "snd (get_metrics_from_summary l fs (summary_path_of d)) = Inr metrics"
    and m: "metrics = [(''resolved_count'', PyInt (int (decimal_value x))),
                       (''resolved_total'', PyInt (int (decimal_value y))),
                       (''success_rate'', PyFloat r)]"
    and x: "all_digits x" "\<not> over_limit l (length x)"
    and y: "all_digits y" "\<not> over_limit l (length y)"
    and r: "format_2f (PyFloat r) = Inr rate"
  shows "success_rate_line l metrics =
           Inr (''  Success Rate: '' @ rate @ ''% ('' @ digits_of (decimal_value x) @ ''/'' @
                digits_of (decimal_value y) @ '')'')"
    and "\<exists>json. json_dumps l metrics = Inr json \<and>
           main l fs d =
             ([Exists (path_str (summary_path_of d)), ReadText (path_str (summary_path_of d)),
               Print ''SWE-bench Evaluation Results:'',
               Print (''  Success Rate: '' @ rate @ ''% ('' @ digits_of (decimal_value x) @ ''/'' @
                      digits_of (decimal_value y) @ '')''),
               Print ([CHR 0x0A] @ ''Metrics (JSON):''), Print json], Returned)"
proof -
  have sx: "py_str_int l (int (decimal_value x)) = Inr (digits_of (decimal_value x))"
    using x by (rule py_str_int_decimal)
  have sy: "py_str_int l (int (decimal_value y)) = Inr (digits_of (decimal_value y))"
    using y by (rule py_str_int_decimal)
  show line: "success_rate_line l metrics =
           Inr (''  Success Rate: '' @ rate @ ''% ('' @ digits_of (decimal_value x) @ ''/'' @
                digits_of (decimal_value y) @ '')'')"
    using sx sy r
    by (simp add: m success_rate_line_def and_then_def dict_get_def py_str_def)
  have "\<exists>json. json_dumps l metrics = Inr json"
    using sx sy by (simp add: m json_dumps_def and_then_def json_value_def)
  then obtain json where j: "json_dumps l metrics = Inr json" by blast
  have c: "dict_contains metrics ''success_rate''" and ne: "metrics \<noteq> []"
    by (simp_all add: m dict_contains_def)
  have "main l fs d =
             ([Exists (path_str (summary_path_of d)), ReadText (path_str (summary_path_of d)),
               Print ''SWE-bench Evaluation Results:'',
               Print (''  Success Rate: '' @ rate @ ''% ('' @ digits_of (decimal_value x) @ ''/'' @
                      digits_of (decimal_value y) @ '')''),
               Print ([CHR 0x0A] @ ''Metrics (JSON):''), Print json], Returned)"
    using ex got get_metrics_pair[of l fs "summary_path_of d"] ne c line j
    by (simp add: main_def Let_def and_then_def)
  with j show "\<exists>json. json_dumps l metrics = Inr json \<and>
           main l fs d =
             ([Exists (path_str (summary_path_of d)), ReadText (path_str (summary_path_of d)),
               Print ''SWE-bench Evaluation Results:'',
               Print (''  Success Rate: '' @ rate @ ''% ('' @ digits_of (decimal_value x) @ ''/'' @
                      digits_of (decimal_value y) @ '')''),
               Print ([CHR 0x0A] @ ''Metrics (JSON):''), Print json], Returned)"
    by blast
qed

lemma path_exists_File: "fs (path_str p) = Some (File content) \<Longrightarrow> path_exists fs p = Inr True"
  by (simp add: path_exists_def)

lemma main_never_KeyError: "snd (main l fs d) \<noteq> Uncaught KeyError"
proof (cases "path_exists fs (summary_path_of d) = Inr True")
  case False
  then have "snd (main l fs d) = Uncaught OSError \<or> snd (main l fs d) = Exit 1"
    by (auto simp: main_def Let_def path_exists_def split: option.splits entry.splits)
  then show ?thesis by auto
next
  case True
  show ?thesis
  proof (cases "snd (get_metrics_from_summary l fs (summary_path_of d))")
    case (Inl e)
    from get_metrics_raises[OF Inl] read_text_errors have "e \<noteq> KeyError" by fastforce
    with main_raises[OF True Inl] show ?thesis by simp
  next
    case (Inr metrics)
    show ?thesis
    proof (cases "metrics = []")
      case True
      with main_no_metrics[OF \<open>path_exists fs (summary_path_of d) = Inr True\<close>] Inr
      show ?thesis by simp
    next
      case False
      with get_metrics_returns[OF Inr] obtain x y zi zf where
        x: "all_digits x" "\<not> over_limit l (length x)" and
        y: "all_digits y" "\<not> over_limit l (length y)" and
        m: "metrics = [(''resolved_count'', PyInt (int (decimal_value x))),
                       (''resolved_total'', PyInt (int (decimal_value y))),
                       (''success_rate'',
                        PyFloat (round_binary64 (of_nat (decimal_value (zi @ zf)) / 10 ^ length zf)))]"
        by blast
      from format_2f_float obtain rate where
        r: "format_2f (PyFloat (round_binary64 (of_nat (decimal_value (zi @ zf)) / 10 ^ length zf)))
              = Inr rate" by blast
      from main_reports(2)[OF True Inr m x y r] show ?thesis by auto
    qed
  qed
qed

subsection \<open>Evaluation on the scenarios of the specification\<close>

lemma summary_path_exp: "path_str (summary_path_of ''exp'') = ''exp/artifacts/summary_stats.md''"
  by (simp add: summary_path_of_def path_div_def Path_def path_str_def)


lemmas digits_eval = all_digits_def is_digit_def decimal_value_def digit_value_def

lemma not_over_limit_small: "n \<le> 640 \<Longrightarrow> \<not> over_limit l n"
  by (simp add: over_limit_def)

text \<open>Scenario D of the specification: a report of zeros.\<close>

lemma get_metrics_zeros:
  assumes "fs (path_str p) = Some (File ''Resolved: 0 / 0 0.00%'')"
  shows "get_metrics_from_summary l fs p =
    ([ReadText (path_str p)],
     Inr [(''resolved_count'', PyInt 0), (''resolved_total'', PyInt 0),
          (''success_rate'', PyFloat (Finite 0))])"
proof -
  have "read_text fs p = Inr ([] @ ''Resolved: '' @ ''0'' @ '' / '' @ ''0'' @ '' '' @ ''0'' @ ''.'' @ ''00'' @ ''%'' @ [])"
    using assms by (simp add: read_text_def)
  from get_metrics_line[OF this, of l] show ?thesis
    by (simp add: digits_eval not_over_limit_small round_binary64_def)
qed

text \<open>Scenario C of the specification: a report with no match.\<close>

lemma get_metrics_no_data:
  assumes "fs (path_str p) = Some (File ''no useful data here'')"
  shows "get_metrics_from_summary l fs p = ([ReadText (path_str p)], Inr [])"
proof -
  have "re_search resolved_pattern ''no useful data here'' = None"
    by (simp add: resolved_pattern_def re_match_def first_match_def)
  then have "\<not> contains_match resolved_pattern ''no useful data here''"
    using re_search_None_iff by blast
  moreover have "read_text fs p = Inr ''no useful data here''"
    using assms by (simp add: read_text_def)
  ultimately show ?thesis by (intro get_metrics_no_match)
qed

lemma floor_rat_numeral: "\<lfloor>(numeral a :: rat) / numeral b\<rfloor> = numeral a div numeral b"
  by (metis floor_divide_of_int_eq of_int_numeral)

lemma ceiling_rat_numeral: "\<lceil>(numeral a :: rat) / numeral b\<rceil> = - (- numeral a div numeral b)"
  unfolding ceiling_def
  by (metis floor_divide_of_int_eq of_int_numeral of_int_minus minus_divide_left)

lemmas float_eval = round_binary64_def floor_log_def round_half_even_def pw_def Let_def
  ndigits.simps floor_rat_numeral ceiling_rat_numeral

lemmas str_eval = py_str_def py_str_int_def over_limit_def digits_of.simps digit_char_def Let_def

lemmas json_eval = json_dumps_def and_then_def json_value_def json_float_def json_string_def
  json_char_def

lemma round_binary64_50: "round_binary64 50 = Finite 50"
  by (simp add: float_eval)

lemma format_2f_50: "format_2f (PyFloat (Finite 50)) = Inr ''50.00''"
  by (simp add: format_2f_def round_half_even_def Let_def digits_of.simps digit_char_def)

lemma float_repr_50: "float_repr (Finite 50) = ''50.0''"
proof -
  have d: "dpoint 50 = 2"
    by (simp add: dpoint_def float_eval)
  have "nearest 50 (Suc 0) = [5, 6]"
    by (simp add: nearest_def d pw_def Let_def)
  moreover have "reads_back 50 (Suc 0) 5"
    by (simp add: reads_back_def d pw_def round_binary64_50)
  ultimately have "shortest 50 (Suc 0) = (Suc 0, 5)"
    by (subst shortest.simps) simp
  then show ?thesis
    by (simp add: float_repr_def d strip_zeros_def digits_of.simps digit_char_def)
qed

text \<open>Scenario A of the specification.\<close>

lemma get_metrics_scenario_A:
  assumes "fs (path_str p) = Some (File ''Resolved: 10 / 20 50.00%'')"
  shows "get_metrics_from_summary l fs p =
    ([ReadText (path_str p)],
     Inr [(''resolved_count'', PyInt 10), (''resolved_total'', PyInt 20),
          (''success_rate'', PyFloat (Finite 50))])"
proof -
  have "read_text fs p = Inr ([] @ ''Resolved: '' @ ''10'' @ '' / '' @ ''20'' @ '' '' @ ''50'' @ ''.'' @ ''00'' @ ''%'' @ [])"
    using assms by (simp add: read_text_def)
  from get_metrics_line[OF this, of l] show ?thesis
    by (simp add: digits_eval not_over_limit_small round_binary64_50)
qed

lemma round_binary64_100: "round_binary64 100 = Finite 100"
  by (simp add: float_eval)

lemma round_binary64_30_5: "round_binary64 (61 / 2) = Finite (61 / 2)"
  by (simp add: float_eval)

lemmas search_eval = resolved_pattern_def re_match_def first_match_def is_space_def is_digit_def

lemma search_greedy_total:
  "re_search resolved_pattern ''Resolved: 10 / 2050.00%'' =
     Some [1 \<mapsto> ''10'', 2 \<mapsto> ''205'', 3 \<mapsto> ''0.00'']"
  by (simp add: search_eval)

lemma search_across_lines:
  "re_search resolved_pattern ''Resolved: 10 /\<newline>20 30.5%'' =
     Some [1 \<mapsto> ''10'', 2 \<mapsto> ''20'', 3 \<mapsto> ''30.5'']"
  by (simp add: search_eval)

lemma get_metrics_greedy_total:
  assumes "fs (path_str p) = Some (File ''Resolved: 10 / 2050.00%'')"
  shows "snd (get_metrics_from_summary l fs p) =
           Inr [(''resolved_count'', PyInt 10), (''resolved_total'', PyInt 205),
                (''success_rate'', PyFloat (Finite 0))]"
proof -
  have r: "read_text fs p = Inr ''Resolved: 10 / 2050.00%''"
    using assms by (simp add: read_text_def)
  from get_metrics_groups[OF r search_greedy_total, of "''10''" "''205''" "''0''" "''00''" l]
  show ?thesis
    by (simp add: digits_eval not_over_limit_small round_binary64_def)
qed

lemma get_metrics_across_lines:
  assumes "fs (path_str p) = Some (File ''Resolved: 10 /\<newline>20 30.5%'')"
  shows "snd (get_metrics_from_summary l fs p) =
           Inr [(''resolved_count'', PyInt 10), (''resolved_total'', PyInt 20),
                (''success_rate'', PyFloat (Finite (61 / 2)))]"
proof -
  have r: "read_text fs p = Inr ''Resolved: 10 /\<newline>20 30.5%''"
    using assms by (simp add: read_text_def)
  from get_metrics_groups[OF r search_across_lines, of "''10''" "''20''" "''30''" "''5''" l]
  show ?thesis
    by (simp add: digits_eval not_over_limit_small round_binary64_30_5)
qed

lemma all_digits_replicate: "0 < n \<Longrightarrow> is_digit c \<Longrightarrow> all_digits (replicate n c)"
  by (simp add: all_digits_def list_all_iff)

subsection \<open>The numerals of a match are runs of digits of the text\<close>










subsection \<open>What a run depends on\<close>

lemma main_lookup_fails:
  assumes "path_exists fs (summary_path_of d) = Inl e"
  shows "main l fs d = ([Exists (path_str (summary_path_of d))], Uncaught e)"
  using assms by (simp add: main_def Let_def)

lemma main_not_found:
  assumes "path_exists fs (summary_path_of d) = Inr False"
  shows "main l fs d =
           ([Exists (path_str (summary_path_of d)),
             Print (''Error: Summary file not found at '' @ path_str (summary_path_of d))],
            Exit 1)"
  using assms by (simp add: main_def Let_def)




subsection \<open>The resolved path\<close>

lemma split_slash_plain: "CHR ''/'' \<notin> set d \<Longrightarrow> split_slash d = [d]"
  by (induction d) auto

text \<open>The resolved path of a directory name without a slash.\<close>

lemma summary_path_plain:
  assumes "CHR ''/'' \<notin> set d" and "d \<noteq> []" and "d \<noteq> ''.''"
  shows "path_str (summary_path_of d) = d @ ''/artifacts/summary_stats.md''"
proof -
  from assms(1,2) have "\<not> prefix ''/'' d" by (cases d) auto
  then have "\<not> prefix ''//'' d" by (cases d) auto
  with \<open>\<not> prefix ''/'' d\<close> assms have "Path d = ([], [d])"
    by (simp add: Path_def split_slash_plain)
  then show ?thesis
    using assms(2) by (simp add: summary_path_of_def path_div_def Path_def path_str_def)
qed

section \<open>The claims\<close>

text \<open>
  C1, as the claim states it, fails: a line of the stated shape whose first number has
  4301 digits makes \<^verbatim>\<open>int\<close> raise \<^verbatim>\<open>ValueError\<close> under the interpreter's default
  limit of 4300 digits, and the extractor returns no dictionary.
\<close>

theorem long_count_counterexample:
  "snd (get_metrics_from_summary 4300
        [''exp/artifacts/summary_stats.md'' \<mapsto>
           File (''Resolved: '' @ replicate 4301 (CHR ''1'') @ '' / 20 50.00%'')]
        (summary_path_of ''exp'')) = Inl ValueError"
proof -
  let ?fs = "[''exp/artifacts/summary_stats.md'' \<mapsto>
               File (''Resolved: '' @ replicate 4301 (CHR ''1'') @ '' / 20 50.00%'')]"
  have "read_text ?fs (summary_path_of ''exp'') =
          Inr ([] @ ''Resolved: '' @ replicate 4301 (CHR ''1'') @ '' / '' @ ''20'' @ '' '' @ ''50'' @
               ''.'' @ ''00'' @ ''%'' @ [])"
    by (simp add: read_text_def summary_path_exp)
  moreover have "all_digits (replicate 4301 (CHR ''1''))"
    by (rule all_digits_replicate) (simp_all add: is_digit_def)
  moreover have "all_digits ''20''" "all_digits ''50''" "all_digits ''00''"
    by (simp_all add: digits_eval)
  ultimately have "get_metrics_from_summary 4300 ?fs (summary_path_of ''exp'') =
      ([ReadText (path_str (summary_path_of ''exp''))],
       if over_limit 4300 (length (replicate 4301 (CHR ''1''))) \<or> over_limit 4300 (length ''20'')
       then Inl ValueError
       else Inr [(''resolved_count'', PyInt (int (decimal_value (replicate 4301 (CHR ''1''))))),
                 (''resolved_total'', PyInt (int (decimal_value ''20''))),
                 (''success_rate'',
                  PyFloat (round_binary64 (of_nat (decimal_value (''50'' @ ''00'')) / 10 ^ length ''00'')))])"
    using get_metrics_line[where fs = ?fs and p = "summary_path_of ''exp''" and pre = "[]"
        and X = "replicate 4301 (CHR ''1'')" and Y = "''20''" and Zi = "''50''" and Zf = "''00''"
        and post = "[]" and l = 4300]
    by simp
  then show ?thesis
    by (simp add: over_limit_def)
qed

text \<open>
  C1, amended. Let the text contain a line \<^verbatim>\<open>Resolved: X / Y Z%\<close>, with \<open>X\<close> and \<open>Y\<close>
  numerals of decimal digits that are within the interpreter's limit for \<^verbatim>\<open>int\<close>, and
  \<open>Z\<close> a decimal with digits on both sides of the point, and let no match of the pattern
  start before this line. Then the extractor returns exactly the three entries
  \<^verbatim>\<open>resolved_count\<close>, \<^verbatim>\<open>resolved_total\<close> and \<^verbatim>\<open>success_rate\<close>, with the
  values of \<open>X\<close>, of \<open>Y\<close> and the float nearest to \<open>Z\<close>, whatever follows the line.
\<close>

theorem first_line_is_extracted:
  assumes "read_text fs p =
             Inr (pre @ ''Resolved: '' @ X @ '' / '' @ Y @ '' '' @ Zi @ ''.'' @ Zf @ ''%'' @ post)"
    and "all_digits X" and "all_digits Y" and "all_digits Zi" and "all_digits Zf"
    and "\<forall>i<length pre. \<not> match_at resolved_pattern
           (pre @ ''Resolved: '' @ X @ '' / '' @ Y @ '' '' @ Zi @ ''.'' @ Zf @ ''%'' @ post) i"
    and "\<not> over_limit l (length X)" and "\<not> over_limit l (length Y)"
  shows "snd (get_metrics_from_summary l fs p) =
           Inr [(''resolved_count'', PyInt (int (decimal_value X))),
                (''resolved_total'', PyInt (int (decimal_value Y))),
                (''success_rate'',
                 PyFloat (round_binary64 (of_nat (decimal_value (Zi @ Zf)) / 10 ^ length Zf)))]
         \<and> py_int l X = Inr (int (decimal_value X))
         \<and> py_int l Y = Inr (int (decimal_value Y))
         \<and> py_float (Zi @ ''.'' @ Zf) =
             Inr (round_binary64 (of_nat (decimal_value (Zi @ Zf)) / 10 ^ length Zf))"
  using get_metrics_line[OF assms(1-6), of l] assms(2-5,7,8) py_float_decimal[of Zi Zf]
  by (simp add: py_int_def)

theorem first_line_is_extracted_witness:
  "read_text [''exp/artifacts/summary_stats.md'' \<mapsto>
       File ''# Resolved: 42 / 100 42.00%\<newline>Resolved: 1 / 2 50.0%'']
     (summary_path_of ''exp'') =
     Inr (''# '' @ ''Resolved: '' @ ''42'' @ '' / '' @ ''100'' @ '' '' @ ''42'' @ ''.'' @ ''00'' @ ''%'' @
          ''\<newline>Resolved: 1 / 2 50.0%'')
   \<and> all_digits ''42'' \<and> all_digits ''100'' \<and> all_digits ''42'' \<and> all_digits ''00''
   \<and> length ''# '' = 2
   \<and> \<not> match_at resolved_pattern
         (''# '' @ ''Resolved: '' @ ''42'' @ '' / '' @ ''100'' @ '' '' @ ''42'' @ ''.'' @ ''00'' @ ''%'' @
          ''\<newline>Resolved: 1 / 2 50.0%'') 0
   \<and> \<not> match_at resolved_pattern
         (''# '' @ ''Resolved: '' @ ''42'' @ '' / '' @ ''100'' @ '' '' @ ''42'' @ ''.'' @ ''00'' @ ''%'' @
          ''\<newline>Resolved: 1 / 2 50.0%'') 1
   \<and> \<not> over_limit 4300 (length ''42'') \<and> \<not> over_limit 4300 (length ''100'')
   \<and> snd (get_metrics_from_summary 4300
        [''exp/artifacts/summary_stats.md'' \<mapsto>
           File ''# Resolved: 42 / 100 42.00%\<newline>Resolved: 1 / 2 50.0%'']
        (summary_path_of ''exp'')) =
       Inr [(''resolved_count'', PyInt 42), (''resolved_total'', PyInt 100),
            (''success_rate'', PyFloat (Finite 42))]"
proof -
  let ?fs = "[''exp/artifacts/summary_stats.md'' \<mapsto>
               File ''# Resolved: 42 / 100 42.00%\<newline>Resolved: 1 / 2 50.0%'']"
  let ?text = "''# '' @ ''Resolved: '' @ ''42'' @ '' / '' @ ''100'' @ '' '' @ ''42'' @ ''.'' @ ''00'' @ ''%'' @
          ''\<newline>Resolved: 1 / 2 50.0%''"
  have a: "read_text ?fs (summary_path_of ''exp'') = Inr ?text"
    by (simp add: read_text_def summary_path_exp)
  have d: "all_digits ''42''" "all_digits ''100''" "all_digits ''42''" "all_digits ''00''"
    by (simp_all add: digits_eval)
  have "\<forall>i<2. re_match resolved_pattern (drop i ?text) = None"
    by (simp add: search_eval All_less_Suc numeral_2_eq_2)
  then have "\<forall>i<2. \<not> match_at resolved_pattern ?text i"
    by (rule no_match_before) simp
  then have b: "\<forall>i<length ''# ''. \<not> match_at resolved_pattern ?text i"
    by simp
  have c: "\<not> over_limit 4300 (length ''42'')" "\<not> over_limit 4300 (length ''100'')"
    by (simp_all add: over_limit_def)
  have r: "round_binary64 42 = Finite 42"
    by (simp add: float_eval)
  from b have e: "\<not> match_at resolved_pattern ?text 0" "\<not> match_at resolved_pattern ?text 1"
    by simp_all
  from first_line_is_extracted[OF a d b c] a d e c show ?thesis
    by (simp add: digits_eval r)
qed

text \<open>
  C2, as the claim states it, fails: the extractor is not total. On a text with a match
  whose second number has 4301 digits, \<^verbatim>\<open>int\<close> raises \<^verbatim>\<open>ValueError\<close> under the
  interpreter's default limit of 4300 digits, and the exception leaves the extractor.
\<close>

theorem long_total_counterexample:
  "snd (get_metrics_from_summary 4300
        [''exp/artifacts/summary_stats.md'' \<mapsto>
           File (''Resolved: 10 / '' @ replicate 4301 (CHR ''9'') @ '' 50.00%'')]
        (summary_path_of ''exp'')) = Inl ValueError"
proof -
  let ?fs = "[''exp/artifacts/summary_stats.md'' \<mapsto>
               File (''Resolved: 10 / '' @ replicate 4301 (CHR ''9'') @ '' 50.00%'')]"
  have "read_text ?fs (summary_path_of ''exp'') =
          Inr ([] @ ''Resolved: '' @ ''10'' @ '' / '' @ replicate 4301 (CHR ''9'') @ '' '' @ ''50'' @
               ''.'' @ ''00'' @ ''%'' @ [])"
    by (simp add: read_text_def summary_path_exp)
  moreover have "all_digits (replicate 4301 (CHR ''9''))"
    by (rule all_digits_replicate) (simp_all add: is_digit_def)
  moreover have "all_digits ''10''" "all_digits ''50''" "all_digits ''00''"
    by (simp_all add: digits_eval)
  ultimately have "get_metrics_from_summary 4300 ?fs (summary_path_of ''exp'') =
      ([ReadText (path_str (summary_path_of ''exp''))],
       if over_limit 4300 (length ''10'') \<or> over_limit 4300 (length (replicate 4301 (CHR ''9'')))
       then Inl ValueError
       else Inr [(''resolved_count'', PyInt (int (decimal_value ''10''))),
                 (''resolved_total'', PyInt (int (decimal_value (replicate 4301 (CHR ''9''))))),
                 (''success_rate'',
                  PyFloat (round_binary64 (of_nat (decimal_value (''50'' @ ''00'')) / 10 ^ length ''00'')))])"
    using get_metrics_line[where fs = ?fs and p = "summary_path_of ''exp''" and pre = "[]"
        and X = "''10''" and Y = "replicate 4301 (CHR ''9'')" and Zi = "''50''" and Zf = "''00''"
        and post = "[]" and l = 4300]
    by simp
  then show ?thesis
    by (simp add: over_limit_def)
qed

text \<open>
  C2, amended. The extractor returns the empty dictionary exactly on the texts that
  contain no match of the pattern. On a text with a match it returns a dictionary, or
  \<^verbatim>\<open>int\<close> raises \<^verbatim>\<open>ValueError\<close>; it raises only when the first or the second
  group of the match has more digits than the interpreter converts (more than 640 and
  more than the limit \<open>l\<close>, 4300 by default). With the limit switched off (\<open>l = 0\<close>) the
  extractor returns on every text.
\<close>

theorem extractor_fails_only_over_int_limit:
  assumes "read_text fs p = Inr content"
  shows "(snd (get_metrics_from_summary l fs p) = Inr [] \<longleftrightarrow>
            \<not> contains_match resolved_pattern content)
         \<and> ((\<exists>metrics. snd (get_metrics_from_summary l fs p) = Inr metrics) \<or>
            (snd (get_metrics_from_summary l fs p) = Inl ValueError \<and>
             (\<exists>m x y. re_search resolved_pattern content = Some m \<and> m 1 = Some x \<and> m 2 = Some y \<and>
                (over_limit l (length x) \<or> over_limit l (length y)))))
         \<and> (l = 0 \<longrightarrow> (\<exists>metrics. snd (get_metrics_from_summary l fs p) = Inr metrics))"
proof -
  let ?r = "snd (get_metrics_from_summary l fs p)"
  have none: "?r = Inr []" if "\<not> contains_match resolved_pattern content"
    using get_metrics_no_match[OF assms that, of l] by simp
  have some: "?r \<noteq> Inr []" if "contains_match resolved_pattern content"
  proof -
    from that obtain m where m: "re_search resolved_pattern content = Some m"
      using re_search_None_iff[of resolved_pattern content] by (cases "re_search resolved_pattern content") auto
    from re_search_resolved_groups[OF m] obtain x y zi zf where
      g: "all_digits x" "all_digits y" "all_digits zi" "all_digits zf"
         "m 1 = Some x" "m 2 = Some y" "m 3 = Some (zi @ ''.'' @ zf)" by blast
    from get_metrics_groups[OF assms m g(5,6,7,1,2,3,4), of l] show ?thesis
      by (simp split: if_splits)
  qed
  have raises: "?r = Inl ValueError \<and>
             (\<exists>m x y. re_search resolved_pattern content = Some m \<and> m 1 = Some x \<and> m 2 = Some y \<and>
                (over_limit l (length x) \<or> over_limit l (length y)))" if "?r = Inl e" for e
    using get_metrics_raises[OF that] assms that by auto
  have total: "(\<exists>metrics. ?r = Inr metrics) \<or>
            (?r = Inl ValueError \<and>
             (\<exists>m x y. re_search resolved_pattern content = Some m \<and> m 1 = Some x \<and> m 2 = Some y \<and>
                (over_limit l (length x) \<or> over_limit l (length y))))"
  proof (cases ?r)
    case (Inl e)
    from raises[OF Inl] show ?thesis by blast
  next
    case (Inr metrics)
    then show ?thesis by blast
  qed
  have off: "\<exists>metrics. ?r = Inr metrics" if "l = 0"
    using total that by (auto simp: over_limit_def)
  from none some total off show ?thesis by blast
qed

theorem extractor_fails_only_over_int_limit_witness:
  "read_text [''exp/artifacts/summary_stats.md'' \<mapsto> File ''no useful data here'']
     (summary_path_of ''exp'') = Inr ''no useful data here''
   \<and> \<not> contains_match resolved_pattern ''no useful data here''
   \<and> snd (get_metrics_from_summary 4300
        [''exp/artifacts/summary_stats.md'' \<mapsto> File ''no useful data here'']
        (summary_path_of ''exp'')) = Inr []"
proof -
  let ?fs = "[''exp/artifacts/summary_stats.md'' \<mapsto> File ''no useful data here'']"
  have a: "read_text ?fs (summary_path_of ''exp'') = Inr ''no useful data here''"
    by (simp add: read_text_def summary_path_exp)
  have "re_search resolved_pattern ''no useful data here'' = None"
    by (simp add: search_eval)
  then have b: "\<not> contains_match resolved_pattern ''no useful data here''"
    using re_search_None_iff by blast
  from extractor_fails_only_over_int_limit[OF a, of 4300] a b show ?thesis by blast
qed

text \<open>
  C3, as the claim states it, fails. Let \<^verbatim>\<open>experiment_dir\<close> be a name of 256 letters,
  one more than a file system allows. Nothing exists at the resolved path, but the lookup
  fails with \<^verbatim>\<open>ENAMETOOLONG\<close>, which \<^verbatim>\<open>Path.exists()\<close> does not turn into
  \<^verbatim>\<open>False\<close>: the \<^verbatim>\<open>OSError\<close> leaves \<open>main\<close>, and nothing is printed on standard
  output.
\<close>

theorem long_name_counterexample:
  "nothing_at [replicate 256 (CHR ''a'') @ ''/artifacts/summary_stats.md'' \<mapsto> NameTooLong]
     (summary_path_of (replicate 256 (CHR ''a'')))
   \<and> main 4300 [replicate 256 (CHR ''a'') @ ''/artifacts/summary_stats.md'' \<mapsto> NameTooLong]
        (replicate 256 (CHR ''a'')) =
       ([Exists (replicate 256 (CHR ''a'') @ ''/artifacts/summary_stats.md'')], Uncaught OSError)
   \<and> stdout (fst (main 4300
        [replicate 256 (CHR ''a'') @ ''/artifacts/summary_stats.md'' \<mapsto> NameTooLong]
        (replicate 256 (CHR ''a'')))) = []"
proof -
  let ?d = "replicate 256 (CHR ''a'')"
  let ?fs = "[?d @ ''/artifacts/summary_stats.md'' \<mapsto> NameTooLong]"
  have "?d \<noteq> ''.''"
  proof
    assume "?d = ''.''"
    then have "length ?d = length ''.''" by (rule arg_cong)
    then show False by simp
  qed
  moreover have "CHR ''/'' \<notin> set ?d" "?d \<noteq> []" by simp_all
  ultimately have p: "path_str (summary_path_of ?d) = ?d @ ''/artifacts/summary_stats.md''"
    by (simp add: summary_path_plain)
  then have f: "?fs (path_str (summary_path_of ?d)) = Some NameTooLong" by simp
  then have n: "nothing_at ?fs (summary_path_of ?d)" by (simp add: nothing_at_def)
  from f have "path_exists ?fs (summary_path_of ?d) = Inl OSError" by (simp add: path_exists_def)
  then have "main 4300 ?fs ?d = ([Exists (path_str (summary_path_of ?d))], Uncaught OSError)"
    by (rule main_lookup_fails)
  with p have m: "main 4300 ?fs ?d = ([Exists (?d @ ''/artifacts/summary_stats.md'')], Uncaught OSError)"
    by simp
  from n m show ?thesis by (simp add: stdout_simps)
qed

text \<open>
  C3, amended. Let nothing exist at the resolved path. Either \<^verbatim>\<open>Path.exists()\<close>
  answers \<^verbatim>\<open>False\<close>, and then \<open>main\<close> prints
  \<^verbatim>\<open>Error: Summary file not found at <path>\<close> on standard output and exits with
  status 1; or the lookup fails with an \<^verbatim>\<open>OSError\<close> that \<^verbatim>\<open>Path.exists()\<close> lets
  through, and then \<open>main\<close> ends with this exception, uncaught, and prints nothing on
  standard output. The run has no other effect: in both cases no file is read, so the
  extractor is not called, and the result is the same for every limit on integer digits.
\<close>

theorem main_missing_file:
  assumes "nothing_at fs (summary_path_of experiment_dir)"
  shows "(path_exists fs (summary_path_of experiment_dir) = Inr False \<longrightarrow>
            main l fs experiment_dir =
              ([Exists (path_str (summary_path_of experiment_dir)),
                Print (''Error: Summary file not found at '' @
                       path_str (summary_path_of experiment_dir))], Exit 1)
            \<and> stdout (fst (main l fs experiment_dir)) =
                ''Error: Summary file not found at '' @
                path_str (summary_path_of experiment_dir) @ [CHR 0x0A]
            \<and> exit_status (snd (main l fs experiment_dir)) = 1)
         \<and> (path_exists fs (summary_path_of experiment_dir) = Inl OSError \<longrightarrow>
            main l fs experiment_dir =
              ([Exists (path_str (summary_path_of experiment_dir))], Uncaught OSError)
            \<and> stdout (fst (main l fs experiment_dir)) = [])
         \<and> (path_exists fs (summary_path_of experiment_dir) = Inr False \<or>
            path_exists fs (summary_path_of experiment_dir) = Inl OSError)
         \<and> (fs (path_str (summary_path_of experiment_dir)) = None \<longleftrightarrow>
            path_exists fs (summary_path_of experiment_dir) = Inr False)
         \<and> (\<forall>p. ReadText p \<notin> set (fst (main l fs experiment_dir)))"
proof -
  let ?p = "summary_path_of experiment_dir"
  have a: "main l fs experiment_dir =
              ([Exists (path_str ?p),
                Print (''Error: Summary file not found at '' @ path_str ?p)], Exit 1)
            \<and> stdout (fst (main l fs experiment_dir)) =
                ''Error: Summary file not found at '' @ path_str ?p @ [CHR 0x0A]
            \<and> exit_status (snd (main l fs experiment_dir)) = 1"
    if "path_exists fs ?p = Inr False"
    using main_not_found[OF that, of l] by (simp add: stdout_simps)
  have b: "main l fs experiment_dir = ([Exists (path_str ?p)], Uncaught OSError)
            \<and> stdout (fst (main l fs experiment_dir)) = []"
    if "path_exists fs ?p = Inl OSError"
    using main_lookup_fails[OF that, of l] by (simp add: stdout_simps)
  have c: "path_exists fs ?p = Inr False \<or> path_exists fs ?p = Inl OSError"
    using assms by (auto simp: nothing_at_def path_exists_def)
  have d: "fs (path_str ?p) = None \<longleftrightarrow> path_exists fs ?p = Inr False"
    using assms by (auto simp: nothing_at_def path_exists_def)
  have e: "\<forall>p. ReadText p \<notin> set (fst (main l fs experiment_dir))"
    using c a b by auto
  from a b c d e show ?thesis by blast
qed

theorem main_missing_file_witness:
  "nothing_at [''exp/summary_stats.md'' \<mapsto> File ''Resolved: 1 / 2 50.0%'']
     (summary_path_of ''exp'')
   \<and> path_exists [''exp/summary_stats.md'' \<mapsto> File ''Resolved: 1 / 2 50.0%'']
       (summary_path_of ''exp'') = Inr False
   \<and> path_str (summary_path_of ''exp'') = ''exp/artifacts/summary_stats.md''
   \<and> main 4300 [''exp/summary_stats.md'' \<mapsto> File ''Resolved: 1 / 2 50.0%''] ''exp'' =
       ([Exists ''exp/artifacts/summary_stats.md'',
         Print ''Error: Summary file not found at exp/artifacts/summary_stats.md''], Exit 1)
   \<and> exit_status
        (snd (main 4300 [''exp/summary_stats.md'' \<mapsto> File ''Resolved: 1 / 2 50.0%''] ''exp'')) = 1
   \<and> nothing_at [replicate 300 (CHR ''b'') @ ''/artifacts/summary_stats.md'' \<mapsto> NameTooLong]
       (summary_path_of (replicate 300 (CHR ''b'')))
   \<and> path_exists [replicate 300 (CHR ''b'') @ ''/artifacts/summary_stats.md'' \<mapsto> NameTooLong]
       (summary_path_of (replicate 300 (CHR ''b''))) = Inl OSError
   \<and> snd (main 4300 [replicate 300 (CHR ''b'') @ ''/artifacts/summary_stats.md'' \<mapsto> NameTooLong]
        (replicate 300 (CHR ''b''))) = Uncaught OSError
   \<and> stdout (fst (main 4300
        [replicate 300 (CHR ''b'') @ ''/artifacts/summary_stats.md'' \<mapsto> NameTooLong]
        (replicate 300 (CHR ''b'')))) = []"
proof -
  let ?fs = "[''exp/summary_stats.md'' \<mapsto> File ''Resolved: 1 / 2 50.0%'']"
  let ?d = "replicate 300 (CHR ''b'')"
  let ?fs' = "[?d @ ''/artifacts/summary_stats.md'' \<mapsto> NameTooLong]"
  have p: "path_str (summary_path_of ''exp'') = ''exp/artifacts/summary_stats.md''"
    by (rule summary_path_exp)
  have n: "nothing_at ?fs (summary_path_of ''exp'')"
    by (simp add: nothing_at_def p)
  have x: "path_exists ?fs (summary_path_of ''exp'') = Inr False"
    by (simp add: path_exists_def p)
  have "?d \<noteq> ''.''"
  proof
    assume "?d = ''.''"
    then have "length ?d = length ''.''" by (rule arg_cong)
    then show False by simp
  qed
  moreover have "CHR ''/'' \<notin> set ?d" "?d \<noteq> []" by simp_all
  ultimately have p': "path_str (summary_path_of ?d) = ?d @ ''/artifacts/summary_stats.md''"
    by (simp add: summary_path_plain)
  have n': "nothing_at ?fs' (summary_path_of ?d)"
    by (simp add: nothing_at_def p')
  have x': "path_exists ?fs' (summary_path_of ?d) = Inl OSError"
    by (simp add: path_exists_def p')
  from main_missing_file[where fs = ?fs and experiment_dir = "''exp''" and l = 4300, OF n] x p
  have 1: "main 4300 ?fs ''exp'' =
       ([Exists ''exp/artifacts/summary_stats.md'',
         Print ''Error: Summary file not found at exp/artifacts/summary_stats.md''], Exit 1)"
    by simp
  from main_missing_file[where fs = ?fs' and experiment_dir = ?d and l = 4300, OF n'] x'
  have 2: "main 4300 ?fs' ?d = ([Exists (path_str (summary_path_of ?d))], Uncaught OSError)"
    by simp
  from n x p 1 n' x' 2 show ?thesis by (simp add: stdout_simps)
qed

text \<open>
  C4. When the summary file exists and the extractor returns the empty dictionary,
  \<open>main\<close> prints \<^verbatim>\<open>Error: Could not parse any metrics from <path>\<close> on standard
  output and exits with status 1.
\<close>

theorem main_no_metrics_parsed:
  assumes "path_exists fs (summary_path_of experiment_dir) = Inr True"
    and "snd (get_metrics_from_summary l fs (summary_path_of experiment_dir)) = Inr []"
  shows "main l fs experiment_dir =
           ([Exists (path_str (summary_path_of experiment_dir)),
             ReadText (path_str (summary_path_of experiment_dir)),
             Print (''Error: Could not parse any metrics from '' @
                    path_str (summary_path_of experiment_dir))], Exit 1)
         \<and> stdout (fst (main l fs experiment_dir)) =
             ''Error: Could not parse any metrics from '' @
             path_str (summary_path_of experiment_dir) @ [CHR 0x0A]
         \<and> exit_status (snd (main l fs experiment_dir)) = 1"
  using main_no_metrics[OF assms] by (simp add: stdout_simps)

theorem main_no_metrics_parsed_witness:
  "path_exists [''exp/artifacts/summary_stats.md'' \<mapsto> File ''no useful data here'']
     (summary_path_of ''exp'') = Inr True
   \<and> snd (get_metrics_from_summary 4300
        [''exp/artifacts/summary_stats.md'' \<mapsto> File ''no useful data here'']
        (summary_path_of ''exp'')) = Inr []
   \<and> stdout (fst (main 4300
        [''exp/artifacts/summary_stats.md'' \<mapsto> File ''no useful data here''] ''exp'')) =
       ''Error: Could not parse any metrics from exp/artifacts/summary_stats.md\<newline>''
   \<and> exit_status (snd (main 4300
        [''exp/artifacts/summary_stats.md'' \<mapsto> File ''no useful data here''] ''exp'')) = 1"
proof -
  let ?fs = "[''exp/artifacts/summary_stats.md'' \<mapsto> File ''no useful data here'']"
  have f: "?fs (path_str (summary_path_of ''exp'')) = Some (File ''no useful data here'')"
    by (simp add: summary_path_exp)
  have a: "path_exists ?fs (summary_path_of ''exp'') = Inr True"
    using f by (rule path_exists_File)
  have b: "snd (get_metrics_from_summary 4300 ?fs (summary_path_of ''exp'')) = Inr []"
    using get_metrics_no_data[where fs = ?fs and p = "summary_path_of ''exp''", OF f] by simp
  from main_no_metrics_parsed[OF a b] a b show ?thesis
    by (simp add: summary_path_exp stdout_simps)
qed

text \<open>
  C5. On the success path (the summary file exists and the extractor returns a dictionary
  that is not empty) \<open>main\<close> returns, so the exit status is 0, and standard output is:
  the title line; the line
  \<^verbatim>\<open>  Success Rate: <rate>% (<resolved_count>/<resolved_total>)\<close>, with the rate
  formatted by \<^verbatim>\<open>.2f\<close>, exactly when the key \<^verbatim>\<open>success_rate\<close> is in the
  dictionary; the header \<^verbatim>\<open>Metrics (JSON):\<close> after an empty line; and the JSON text of
  the whole dictionary with indent 2. No conversion on this path raises.
\<close>

theorem main_success_output:
  assumes "path_exists fs (summary_path_of experiment_dir) = Inr True"
    and "snd (get_metrics_from_summary l fs (summary_path_of experiment_dir)) = Inr metrics"
    and "metrics \<noteq> []"
  shows "\<exists>rate count total json.
     json_dumps l metrics = Inr json \<and>
     (dict_contains metrics ''success_rate'' \<longrightarrow>
        and_then (dict_get metrics ''success_rate'') format_2f = Inr rate \<and>
        and_then (dict_get metrics ''resolved_count'') (py_str l) = Inr count \<and>
        and_then (dict_get metrics ''resolved_total'') (py_str l) = Inr total) \<and>
     main l fs experiment_dir =
       ([Exists (path_str (summary_path_of experiment_dir)),
         ReadText (path_str (summary_path_of experiment_dir)),
         Print ''SWE-bench Evaluation Results:''] @
        (if dict_contains metrics ''success_rate''
         then [Print (''  Success Rate: '' @ rate @ ''% ('' @ count @ ''/'' @ total @ '')'')]
         else []) @
        [Print ([CHR 0x0A] @ ''Metrics (JSON):''), Print json], Returned) \<and>
     stdout (fst (main l fs experiment_dir)) =
       ''SWE-bench Evaluation Results:'' @ [CHR 0x0A] @
       (if dict_contains metrics ''success_rate''
        then ''  Success Rate: '' @ rate @ ''% ('' @ count @ ''/'' @ total @ '')'' @ [CHR 0x0A]
        else []) @
       [CHR 0x0A] @ ''Metrics (JSON):'' @ [CHR 0x0A] @ json @ [CHR 0x0A] \<and>
     exit_status (snd (main l fs experiment_dir)) = 0"
proof -
  from get_metrics_returns[OF assms(2)] assms(3) obtain x y zi zf where
    x: "all_digits x" "\<not> over_limit l (length x)" and
    y: "all_digits y" "\<not> over_limit l (length y)" and
    m: "metrics = [(''resolved_count'', PyInt (int (decimal_value x))),
                   (''resolved_total'', PyInt (int (decimal_value y))),
                   (''success_rate'',
                    PyFloat (round_binary64 (of_nat (decimal_value (zi @ zf)) / 10 ^ length zf)))]"
    by blast
  from format_2f_float obtain rate where
    r: "format_2f (PyFloat (round_binary64 (of_nat (decimal_value (zi @ zf)) / 10 ^ length zf)))
          = Inr rate" by blast
  from main_reports(2)[OF assms(1,2) m x y r] obtain json where
    j: "json_dumps l metrics = Inr json" and
    run: "main l fs experiment_dir =
       ([Exists (path_str (summary_path_of experiment_dir)),
         ReadText (path_str (summary_path_of experiment_dir)),
         Print ''SWE-bench Evaluation Results:'',
         Print (''  Success Rate: '' @ rate @ ''% ('' @ digits_of (decimal_value x) @ ''/'' @
                digits_of (decimal_value y) @ '')''),
         Print ([CHR 0x0A] @ ''Metrics (JSON):''), Print json], Returned)"
    by blast
  have c: "dict_contains metrics ''success_rate''"
    by (simp add: m dict_contains_def)
  have f1: "and_then (dict_get metrics ''success_rate'') format_2f = Inr rate"
    using r by (simp add: m dict_get_def and_then_def)
  have f2: "and_then (dict_get metrics ''resolved_count'') (py_str l) =
              Inr (digits_of (decimal_value x))"
    using py_str_int_decimal[OF x] by (simp add: m dict_get_def and_then_def py_str_def)
  have f3: "and_then (dict_get metrics ''resolved_total'') (py_str l) =
              Inr (digits_of (decimal_value y))"
    using py_str_int_decimal[OF y] by (simp add: m dict_get_def and_then_def py_str_def)
  have out: "stdout (fst (main l fs experiment_dir)) =
       ''SWE-bench Evaluation Results:'' @ [CHR 0x0A] @
       (''  Success Rate: '' @ rate @ ''% ('' @ digits_of (decimal_value x) @ ''/'' @
          digits_of (decimal_value y) @ '')'' @ [CHR 0x0A]) @
       [CHR 0x0A] @ ''Metrics (JSON):'' @ [CHR 0x0A] @ json @ [CHR 0x0A]"
    by (simp add: run stdout_simps)
  have st: "exit_status (snd (main l fs experiment_dir)) = 0"
    by (simp add: run)
  show ?thesis
    apply (rule exI[of _ rate])
    apply (rule exI[of _ "digits_of (decimal_value x)"])
    apply (rule exI[of _ "digits_of (decimal_value y)"])
    apply (rule exI[of _ json])
    using j c f1 f2 f3 run out st by simp
qed

theorem main_success_output_witness:
  \<open>path_exists [''exp/artifacts/summary_stats.md'' \<mapsto> File ''Resolved: 10 / 20 50.00%'']
     (summary_path_of ''exp'') = Inr True
   \<and> snd (get_metrics_from_summary 4300
        [''exp/artifacts/summary_stats.md'' \<mapsto> File ''Resolved: 10 / 20 50.00%'']
        (summary_path_of ''exp'')) =
       Inr [(''resolved_count'', PyInt 10), (''resolved_total'', PyInt 20),
            (''success_rate'', PyFloat (Finite 50))]
   \<and> [(''resolved_count'', PyInt 10), (''resolved_total'', PyInt 20),
        (''success_rate'', PyFloat (Finite 50))] \<noteq> []
   \<and> stdout (fst (main 4300
        [''exp/artifacts/summary_stats.md'' \<mapsto> File ''Resolved: 10 / 20 50.00%''] ''exp'')) =
       ''SWE-bench Evaluation Results:\<newline>  Success Rate: 50.00% (10/20)\<newline>\<newline>Metrics (JSON):\<newline>{\<newline>  "resolved_count": 10,\<newline>  "resolved_total": 20,\<newline>  "success_rate": 50.0\<newline>}\<newline>''
   \<and> exit_status (snd (main 4300
        [''exp/artifacts/summary_stats.md'' \<mapsto> File ''Resolved: 10 / 20 50.00%''] ''exp'')) = 0\<close>
proof -
  let ?fs = "[''exp/artifacts/summary_stats.md'' \<mapsto> File ''Resolved: 10 / 20 50.00%'']"
  let ?m = "[(''resolved_count'', PyInt 10), (''resolved_total'', PyInt 20),
             (''success_rate'', PyFloat (Finite 50))]"
  have f: "?fs (path_str (summary_path_of ''exp'')) = Some (File ''Resolved: 10 / 20 50.00%'')"
    by (simp add: summary_path_exp)
  have a: "path_exists ?fs (summary_path_of ''exp'') = Inr True"
    using f by (rule path_exists_File)
  have b: "snd (get_metrics_from_summary 4300 ?fs (summary_path_of ''exp'')) = Inr ?m"
    using get_metrics_scenario_A[where fs = ?fs and p = "summary_path_of ''exp''", OF f] by simp
  have c: "?m \<noteq> []" by simp
  have k: "dict_contains ?m ''success_rate''"
    by (simp add: dict_contains_def)
  from main_success_output[OF a b c] k obtain rate count total json where
    j: "json_dumps 4300 ?m = Inr json" and
    r: "and_then (dict_get ?m ''success_rate'') format_2f = Inr rate" and
    n: "and_then (dict_get ?m ''resolved_count'') (py_str 4300) = Inr count" and
    t: "and_then (dict_get ?m ''resolved_total'') (py_str 4300) = Inr total" and
    out: "stdout (fst (main 4300 ?fs ''exp'')) =
       ''SWE-bench Evaluation Results:'' @ [CHR 0x0A] @
       (if dict_contains ?m ''success_rate''
        then ''  Success Rate: '' @ rate @ ''% ('' @ count @ ''/'' @ total @ '')'' @ [CHR 0x0A]
        else []) @
       [CHR 0x0A] @ ''Metrics (JSON):'' @ [CHR 0x0A] @ json @ [CHR 0x0A]" and
    st: "exit_status (snd (main 4300 ?fs ''exp'')) = 0"
    by blast
  from r have rate: "rate = ''50.00''"
    by (simp add: dict_get_def and_then_def format_2f_50)
  from n have count: "count = ''10''"
    by (simp add: dict_get_def and_then_def str_eval)
  from t have total: "total = ''20''"
    by (simp add: dict_get_def and_then_def str_eval)
  from j have json: \<open>json = ''{\<newline>  "resolved_count": 10,\<newline>  "resolved_total": 20,\<newline>  "success_rate": 50.0\<newline>}''\<close>
    by (simp add: json_eval str_eval float_repr_50)
  from out k have "stdout (fst (main 4300 ?fs ''exp'')) =
       ''SWE-bench Evaluation Results:'' @ [CHR 0x0A] @
       ''  Success Rate: '' @ rate @ ''% ('' @ count @ ''/'' @ total @ '')'' @ [CHR 0x0A] @
       [CHR 0x0A] @ ''Metrics (JSON):'' @ [CHR 0x0A] @ json @ [CHR 0x0A]"
    by simp
  with a b st show ?thesis
    by (simp add: rate count total json)
qed

text \<open>
  C6. For a report whose content is \<^verbatim>\<open>Resolved: 0 / 0 0.00%\<close> the extractor returns
  \<^verbatim>\<open>{resolved_count: 0, resolved_total: 0, success_rate: 0.0}\<close>. The dictionary is
  not empty, so \<open>main\<close> takes the success path: it prints the three zeros in the
  \<^verbatim>\<open>Success Rate\<close> line and in the JSON text and returns with exit status 0.
\<close>

theorem zeros_are_reported:
  assumes \<open>fs (path_str (summary_path_of experiment_dir)) = Some (File ''Resolved: 0 / 0 0.00%'')\<close>
  shows \<open>snd (get_metrics_from_summary l fs (summary_path_of experiment_dir)) =
           Inr [(''resolved_count'', PyInt 0), (''resolved_total'', PyInt 0),
                (''success_rate'', PyFloat (Finite 0))]
         \<and> main l fs experiment_dir =
           ([Exists (path_str (summary_path_of experiment_dir)),
             ReadText (path_str (summary_path_of experiment_dir)),
             Print ''SWE-bench Evaluation Results:'',
             Print ''  Success Rate: 0.00% (0/0)'',
             Print ''\<newline>Metrics (JSON):'',
             Print ''{\<newline>  "resolved_count": 0,\<newline>  "resolved_total": 0,\<newline>  "success_rate": 0.0\<newline>}''],
            Returned)
         \<and> exit_status (snd (main l fs experiment_dir)) = 0\<close>
proof -
  let ?m = "[(''resolved_count'', PyInt 0), (''resolved_total'', PyInt 0),
             (''success_rate'', PyFloat (Finite 0))]"
  have got: "get_metrics_from_summary l fs (summary_path_of experiment_dir) =
               ([ReadText (path_str (summary_path_of experiment_dir))], Inr ?m)"
    using assms by (rule get_metrics_zeros)
  have ex: "path_exists fs (summary_path_of experiment_dir) = Inr True"
    using assms by (rule path_exists_File)
  have line: "success_rate_line l ?m = Inr ''  Success Rate: 0.00% (0/0)''"
    by (simp add: success_rate_line_def dict_get_def and_then_def format_2f_def
        round_half_even_def str_eval)
  have json: \<open>json_dumps l ?m =
      Inr ''{\<newline>  "resolved_count": 0,\<newline>  "resolved_total": 0,\<newline>  "success_rate": 0.0\<newline>}''\<close>
    by (simp add: json_eval str_eval float_repr_def)
  have run: \<open>main l fs experiment_dir =
           ([Exists (path_str (summary_path_of experiment_dir)),
             ReadText (path_str (summary_path_of experiment_dir)),
             Print ''SWE-bench Evaluation Results:'',
             Print ''  Success Rate: 0.00% (0/0)'',
             Print ''\<newline>Metrics (JSON):'',
             Print ''{\<newline>  "resolved_count": 0,\<newline>  "resolved_total": 0,\<newline>  "success_rate": 0.0\<newline>}''],
            Returned)\<close>
    using ex by (simp add: main_def Let_def got dict_contains_def line json and_then_def)
  from got run show ?thesis by simp
qed

theorem zeros_are_reported_witness:
  \<open>[''exp/artifacts/summary_stats.md'' \<mapsto> File ''Resolved: 0 / 0 0.00%'']
     (path_str (summary_path_of ''exp'')) = Some (File ''Resolved: 0 / 0 0.00%'')
   \<and> stdout (fst (main 4300
        [''exp/artifacts/summary_stats.md'' \<mapsto> File ''Resolved: 0 / 0 0.00%''] ''exp'')) =
       ''SWE-bench Evaluation Results:\<newline>  Success Rate: 0.00% (0/0)\<newline>\<newline>Metrics (JSON):\<newline>{\<newline>  "resolved_count": 0,\<newline>  "resolved_total": 0,\<newline>  "success_rate": 0.0\<newline>}\<newline>''
   \<and> exit_status (snd (main 4300
        [''exp/artifacts/summary_stats.md'' \<mapsto> File ''Resolved: 0 / 0 0.00%''] ''exp'')) = 0\<close>
proof -
  let ?fs = "[''exp/artifacts/summary_stats.md'' \<mapsto> File ''Resolved: 0 / 0 0.00%'']"
  have f: "?fs (path_str (summary_path_of ''exp'')) = Some (File ''Resolved: 0 / 0 0.00%'')"
    by (simp add: summary_path_exp)
  from zeros_are_reported[where fs = ?fs and experiment_dir = "''exp''" and l = 4300, OF f] f
  show ?thesis by (simp add: summary_path_exp stdout_simps)
qed

text \<open>
  C7. The line \<^verbatim>\<open>Resolved: 100 / 100 100.0%\<close>, whose rate has one digit after the
  point, matches the pattern, and the extractor returns the rate 100.0 with both counts
  100. One digit after the point is needed: \<^verbatim>\<open>Resolved: 100 / 100 100.%\<close> has no
  match and gives the empty dictionary.
\<close>

theorem one_fraction_digit_suffices:
  "re_search resolved_pattern ''Resolved: 100 / 100 100.0%'' =
     Some [1 \<mapsto> ''100'', 2 \<mapsto> ''100'', 3 \<mapsto> ''100.0'']
   \<and> (fs (path_str p) = Some (File ''Resolved: 100 / 100 100.0%'') \<longrightarrow>
        snd (get_metrics_from_summary l fs p) =
          Inr [(''resolved_count'', PyInt 100), (''resolved_total'', PyInt 100),
               (''success_rate'', PyFloat (Finite 100))])
   \<and> re_search resolved_pattern ''Resolved: 100 / 100 100.%'' = None
   \<and> (fs (path_str p) = Some (File ''Resolved: 100 / 100 100.%'') \<longrightarrow>
        snd (get_metrics_from_summary l fs p) = Inr [])"
proof -
  have s: "re_search resolved_pattern ''Resolved: 100 / 100 100.0%'' =
     Some [1 \<mapsto> ''100'', 2 \<mapsto> ''100'', 3 \<mapsto> ''100.0'']"
    using re_search_line[of "''100''" "''100''" "''100''" "''0''" "[]" "[]"]
    by (simp add: digits_eval)
  have a: "snd (get_metrics_from_summary l fs p) =
          Inr [(''resolved_count'', PyInt 100), (''resolved_total'', PyInt 100),
               (''success_rate'', PyFloat (Finite 100))]"
    if "fs (path_str p) = Some (File ''Resolved: 100 / 100 100.0%'')"
  proof -
    have "read_text fs p = Inr ([] @ ''Resolved: '' @ ''100'' @ '' / '' @ ''100'' @ '' '' @ ''100'' @ ''.'' @ ''0'' @ ''%'' @ [])"
      using that by (simp add: read_text_def)
    from get_metrics_line[OF this, of l] show ?thesis
      by (simp add: digits_eval not_over_limit_small round_binary64_100)
  qed
  have n: "re_search resolved_pattern ''Resolved: 100 / 100 100.%'' = None"
    by (simp add: search_eval)
  have b: "snd (get_metrics_from_summary l fs p) = Inr []"
    if "fs (path_str p) = Some (File ''Resolved: 100 / 100 100.%'')"
  proof -
    have "read_text fs p = Inr ''Resolved: 100 / 100 100.%''"
      using that by (simp add: read_text_def)
    moreover have "\<not> contains_match resolved_pattern ''Resolved: 100 / 100 100.%''"
      using n re_search_None_iff by blast
    ultimately show ?thesis by (simp add: get_metrics_no_match)
  qed
  from s a n b show ?thesis by blast
qed

theorem one_fraction_digit_suffices_witness:
  "[''exp/artifacts/summary_stats.md'' \<mapsto> File ''Resolved: 100 / 100 100.0%'']
     (path_str (summary_path_of ''exp'')) = Some (File ''Resolved: 100 / 100 100.0%'')
   \<and> snd (get_metrics_from_summary 4300
        [''exp/artifacts/summary_stats.md'' \<mapsto> File ''Resolved: 100 / 100 100.0%'']
        (summary_path_of ''exp'')) =
       Inr [(''resolved_count'', PyInt 100), (''resolved_total'', PyInt 100),
            (''success_rate'', PyFloat (Finite 100))]
   \<and> [''exp/artifacts/summary_stats.md'' \<mapsto> File ''Resolved: 100 / 100 100.%'']
     (path_str (summary_path_of ''exp'')) = Some (File ''Resolved: 100 / 100 100.%'')
   \<and> snd (get_metrics_from_summary 4300
        [''exp/artifacts/summary_stats.md'' \<mapsto> File ''Resolved: 100 / 100 100.%'']
        (summary_path_of ''exp'')) = Inr []"
proof -
  let ?fs = "[''exp/artifacts/summary_stats.md'' \<mapsto> File ''Resolved: 100 / 100 100.0%'']"
  let ?fs' = "[''exp/artifacts/summary_stats.md'' \<mapsto> File ''Resolved: 100 / 100 100.%'']"
  have f: "?fs (path_str (summary_path_of ''exp'')) = Some (File ''Resolved: 100 / 100 100.0%'')"
    by (simp add: summary_path_exp)
  have f': "?fs' (path_str (summary_path_of ''exp'')) = Some (File ''Resolved: 100 / 100 100.%'')"
    by (simp add: summary_path_exp)
  from one_fraction_digit_suffices[where fs = ?fs and p = "summary_path_of ''exp''" and l = 4300]
    one_fraction_digit_suffices[where fs = ?fs' and p = "summary_path_of ''exp''" and l = 4300]
    f f'
  show ?thesis by blast
qed




text \<open>
  C9. The dictionary the extractor returns has either all three of the keys
  \<^verbatim>\<open>resolved_count\<close>, \<^verbatim>\<open>resolved_total\<close> and \<^verbatim>\<open>success_rate\<close> or none of
  them. So when \<^verbatim>\<open>success_rate\<close> is in it, the lookups of the other two keys in the
  f-string of \<open>main\<close> find their values, and no run of \<open>main\<close> ends with a
  \<^verbatim>\<open>KeyError\<close>.
\<close>

theorem keys_all_or_none:
  assumes "snd (get_metrics_from_summary l fs p) = Inr metrics"
  shows "((dict_contains metrics ''resolved_count'' \<and> dict_contains metrics ''resolved_total'' \<and>
           dict_contains metrics ''success_rate'') \<or>
          (\<not> dict_contains metrics ''resolved_count'' \<and> \<not> dict_contains metrics ''resolved_total'' \<and>
           \<not> dict_contains metrics ''success_rate''))
         \<and> (dict_contains metrics ''success_rate'' \<longrightarrow>
              (\<exists>c t. dict_get metrics ''resolved_count'' = Inr c \<and>
                     dict_get metrics ''resolved_total'' = Inr t))
         \<and> (\<forall>experiment_dir. snd (main l fs experiment_dir) \<noteq> Uncaught KeyError)"
  using get_metrics_returns[OF assms] main_never_KeyError
  by (auto simp: dict_contains_def dict_get_def)

theorem keys_all_or_none_witness:
  \<open>snd (get_metrics_from_summary 4300
        [''exp/artifacts/summary_stats.md'' \<mapsto> File ''Resolved: 10 / 20 50.00%'']
        (summary_path_of ''exp'')) =
     Inr [(''resolved_count'', PyInt 10), (''resolved_total'', PyInt 20),
          (''success_rate'', PyFloat (Finite 50))]
   \<and> dict_contains [(''resolved_count'', PyInt 10), (''resolved_total'', PyInt 20),
          (''success_rate'', PyFloat (Finite 50))] ''success_rate''
   \<and> dict_get [(''resolved_count'', PyInt 10), (''resolved_total'', PyInt 20),
          (''success_rate'', PyFloat (Finite 50))] ''resolved_count'' = Inr (PyInt 10)
   \<and> dict_get [(''resolved_count'', PyInt 10), (''resolved_total'', PyInt 20),
          (''success_rate'', PyFloat (Finite 50))] ''resolved_total'' = Inr (PyInt 20)
   \<and> snd (main 4300
        [''exp/artifacts/summary_stats.md'' \<mapsto> File ''Resolved: 10 / 20 50.00%''] ''exp'')
       \<noteq> Uncaught KeyError\<close>
proof -
  let ?fs = "[''exp/artifacts/summary_stats.md'' \<mapsto> File ''Resolved: 10 / 20 50.00%'']"
  have f: "?fs (path_str (summary_path_of ''exp'')) = Some (File ''Resolved: 10 / 20 50.00%'')"
    by (simp add: summary_path_exp)
  have b: "snd (get_metrics_from_summary 4300 ?fs (summary_path_of ''exp'')) =
             Inr [(''resolved_count'', PyInt 10), (''resolved_total'', PyInt 20),
                  (''success_rate'', PyFloat (Finite 50))]"
    using get_metrics_scenario_A[where fs = ?fs and p = "summary_path_of ''exp''", OF f] by simp
  from keys_all_or_none[OF b] b show ?thesis
    by (simp add: dict_contains_def dict_get_def)
qed

text \<open>
  C10, as the claim states it, fails: on the text \<^verbatim>\<open>Resolved: 10 / 2050.00%\<close> the
  extractor does not return the total 20 and the rate 50.0. The group of the total is
  greedy: it takes \<^verbatim>\<open>2050\<close>, then gives back one digit so that the rate can match,
  and the result is the total 205 and the rate 0.0.
\<close>

theorem adjacent_numbers_counterexample:
  "snd (get_metrics_from_summary 4300
        [''exp/artifacts/summary_stats.md'' \<mapsto> File ''Resolved: 10 / 2050.00%'']
        (summary_path_of ''exp'')) =
     Inr [(''resolved_count'', PyInt 10), (''resolved_total'', PyInt 205),
          (''success_rate'', PyFloat (Finite 0))]
   \<and> snd (get_metrics_from_summary 4300
        [''exp/artifacts/summary_stats.md'' \<mapsto> File ''Resolved: 10 / 2050.00%'']
        (summary_path_of ''exp'')) \<noteq>
     Inr [(''resolved_count'', PyInt 10), (''resolved_total'', PyInt 20),
          (''success_rate'', PyFloat (Finite 50))]"
proof -
  let ?fs = "[''exp/artifacts/summary_stats.md'' \<mapsto> File ''Resolved: 10 / 2050.00%'']"
  have f: "?fs (path_str (summary_path_of ''exp'')) = Some (File ''Resolved: 10 / 2050.00%'')"
    by (simp add: summary_path_exp)
  from get_metrics_greedy_total[where fs = ?fs and p = "summary_path_of ''exp''" and l = 4300, OF f]
  show ?thesis by simp
qed

text \<open>
  C10, amended. The tokens of the pattern are separated by optional whitespace: with any
  runs of whitespace characters, empty or not and newlines included, between
  \<^verbatim>\<open>Resolved:\<close>, the first number, the slash, the second number and the rate, the text
  is matched by the pattern. So a match need not lie on one line:
  \<^verbatim>\<open>Resolved: 10 /\<close>, a newline, \<^verbatim>\<open>20 30.5%\<close> gives 10, 20 and 30.5. And the total
  and the rate need not be separated; the digits are then split by the greedy total,
  which leaves one digit to the rate: \<^verbatim>\<open>Resolved: 10 / 2050.00%\<close> gives 10, 205 and
  0.0.
\<close>

theorem whitespace_is_optional:
  "(list_all is_space w1 \<and> list_all is_space w2 \<and> list_all is_space w3 \<and> list_all is_space w4 \<and>
    all_digits X \<and> all_digits Y \<and> all_digits Zi \<and> all_digits Zf \<longrightarrow>
      ''Resolved:'' @ w1 @ X @ w2 @ ''/'' @ w3 @ Y @ w4 @ Zi @ ''.'' @ Zf @ ''%''
        \<in> lang resolved_pattern)
   \<and> (fs (path_str p) = Some (File ''Resolved: 10 /\<newline>20 30.5%'') \<longrightarrow>
        snd (get_metrics_from_summary l fs p) =
          Inr [(''resolved_count'', PyInt 10), (''resolved_total'', PyInt 20),
               (''success_rate'', PyFloat (Finite (61 / 2)))])
   \<and> (fs (path_str p) = Some (File ''Resolved: 10 / 2050.00%'') \<longrightarrow>
        snd (get_metrics_from_summary l fs p) =
          Inr [(''resolved_count'', PyInt 10), (''resolved_total'', PyInt 205),
               (''success_rate'', PyFloat (Finite 0))])"
proof (intro conjI impI)
  assume "list_all is_space w1 \<and> list_all is_space w2 \<and> list_all is_space w3 \<and>
    list_all is_space w4 \<and> all_digits X \<and> all_digits Y \<and> all_digits Zi \<and> all_digits Zf"
  then show "''Resolved:'' @ w1 @ X @ w2 @ ''/'' @ w3 @ Y @ w4 @ Zi @ ''.'' @ Zf @ ''%''
        \<in> lang resolved_pattern"
    by (intro lang_resolved_pattern) (elim conjE, assumption)+
next
  assume "fs (path_str p) = Some (File ''Resolved: 10 /\<newline>20 30.5%'')"
  then show "snd (get_metrics_from_summary l fs p) =
          Inr [(''resolved_count'', PyInt 10), (''resolved_total'', PyInt 20),
               (''success_rate'', PyFloat (Finite (61 / 2)))]"
    by (rule get_metrics_across_lines)
next
  assume "fs (path_str p) = Some (File ''Resolved: 10 / 2050.00%'')"
  then show "snd (get_metrics_from_summary l fs p) =
          Inr [(''resolved_count'', PyInt 10), (''resolved_total'', PyInt 205),
               (''success_rate'', PyFloat (Finite 0))]"
    by (rule get_metrics_greedy_total)
qed

theorem whitespace_is_optional_witness:
  "list_all is_space '' '' \<and> list_all is_space [] \<and> list_all is_space ''\<newline>  '' \<and>
   list_all is_space [] \<and> all_digits ''10'' \<and> all_digits ''20'' \<and> all_digits ''50'' \<and>
   all_digits ''00''
   \<and> ''Resolved: 10/\<newline>  2050.00%'' \<in> lang resolved_pattern
   \<and> [''exp/artifacts/summary_stats.md'' \<mapsto> File ''Resolved: 10 /\<newline>20 30.5%'']
        (path_str (summary_path_of ''exp'')) = Some (File ''Resolved: 10 /\<newline>20 30.5%'')
   \<and> snd (get_metrics_from_summary 4300
        [''exp/artifacts/summary_stats.md'' \<mapsto> File ''Resolved: 10 /\<newline>20 30.5%'']
        (summary_path_of ''exp'')) =
       Inr [(''resolved_count'', PyInt 10), (''resolved_total'', PyInt 20),
            (''success_rate'', PyFloat (Finite (61 / 2)))]"
proof -
  let ?fs = "[''exp/artifacts/summary_stats.md'' \<mapsto> File ''Resolved: 10 /\<newline>20 30.5%'']"
  have f: "?fs (path_str (summary_path_of ''exp'')) = Some (File ''Resolved: 10 /\<newline>20 30.5%'')"
    by (simp add: summary_path_exp)
  have h: "list_all is_space '' '' \<and> list_all is_space [] \<and> list_all is_space ''\<newline>  '' \<and>
     list_all is_space [] \<and> all_digits ''10'' \<and> all_digits ''20'' \<and> all_digits ''50'' \<and>
     all_digits ''00''"
    by (simp add: is_space_def digits_eval)
  from whitespace_is_optional[where fs = ?fs and p = "summary_path_of ''exp''" and l = 4300
      and ?w1.0 = "'' ''" and ?w2.0 = "[]" and ?w3.0 = "''\<newline>  ''" and ?w4.0 = "[]"
      and X = "''10''" and Y = "''20''" and Zi = "''50''" and Zf = "''00''"] f h
  show ?thesis by simp
qed

end
